theory Spec2Isabelle
  imports Main "HOL-Library.AList" "HOL-Library.Multiset"
begin

section \<open>Python values: exceptions, results, the log, dictionaries, strings\<close>

text \<open>
  The model of \<^verbatim>\<open>pyglossary/glossary.py\<close>. A Python exception is a value of \<open>exn\<close>;
  a call that may raise returns a \<open>result\<close>. A method that mutates the glossary returns the
  glossary it leaves behind next to its result, also when it raises: the object survives
  the exception. \<open>Exception s\<close> is any other subclass of \<^verbatim>\<open>Exception\<close>;
  \<^verbatim>\<open>KeyboardInterrupt\<close> and \<^verbatim>\<open>SystemExit\<close> are the exceptions that are not, which an
  \<^verbatim>\<open>except Exception\<close> does not catch.
\<close>

datatype exn =
    KeyError | ValueError | IndexError | AttributeError | TypeError | Exception string
  | KeyboardInterrupt | SystemExit

definition isException :: "exn \<Rightarrow> bool" where
  "isException e = (e \<noteq> KeyboardInterrupt \<and> e \<noteq> SystemExit)"

datatype 'a result = Return 'a | Raise exn

text \<open>
  Calls of the module's \<^verbatim>\<open>log\<close> object are recorded in order: the level and the message
  template (quotation marks inside a message and its arguments are left out).
\<close>

datatype level = DEBUG | INFO | WARNING | ERROR | CRITICAL | EXCEPTION

type_synonym log_entry = "level \<times> string"

text \<open>
  A \<^verbatim>\<open>dict\<close> (and an \<^verbatim>\<open>OrderedDict\<close>) is an association list in insertion order:
  \<^verbatim>\<open>d[k]\<close> is \<open>map_of d k\<close> (\<open>None\<close> is the \<^verbatim>\<open>KeyError\<close>), \<^verbatim>\<open>d[k] = v\<close> is
  \<open>AList.update k v d\<close> (in place for a key that is there, at the end otherwise) and
  \<^verbatim>\<open>d.items()\<close> is the list itself.
\<close>

type_synonym ('k, 'v) dict = "('k \<times> 'v) list"

text \<open>
  A character is a code point below 256, and \<^verbatim>\<open>str.lower\<close> is what Python does on
  these: \<^verbatim>\<open>A\<close> to \<^verbatim>\<open>Z\<close> and the capital letters of Latin-1 (192 to 222 but for the
  multiplication sign, 215) move up by 32, every other character stays.
\<close>

definition lower_char :: "char \<Rightarrow> char" where
  "lower_char c =
     (let n = (of_char c :: nat)
      in if (65 \<le> n \<and> n \<le> 90) \<or> (192 \<le> n \<and> n \<le> 222 \<and> n \<noteq> 215) then char_of (n + 32)
         else c)"

definition lower :: "string \<Rightarrow> string" where
  "lower s = map lower_char s"

text \<open>
  \<^verbatim>\<open>str.rfind\<close> for one character, and \<^verbatim>\<open>os.path.splitext\<close> of the standard library
  for POSIX paths: the extension starts at the last dot of the last path component,
  unless only dots come before it in that component.
  \<^verbatim>\<open>
  def _splitext(p, sep, altsep, extsep):
      sepIndex = p.rfind(sep)
      dotIndex = p.rfind(extsep)
      if dotIndex > sepIndex:
          filenameIndex = sepIndex + 1
          while filenameIndex < dotIndex:
              if p[filenameIndex:filenameIndex+1] != extsep:
                  return p[:dotIndex], p[dotIndex:]
              filenameIndex += 1
      return p, p[:0]
  \<close>
\<close>

definition rfind :: "char \<Rightarrow> string \<Rightarrow> int" where
  "rfind c p =
     (if c \<in> set p
      then int (length p) - 1 - int (length (takeWhile (\<lambda>x. x \<noteq> c) (rev p)))
      else - 1)"

definition splitext :: "string \<Rightarrow> string \<times> string" where
  "splitext p =
     (let sepIndex = rfind (CHR ''/'') p;
          dotIndex = rfind (CHR ''.'') p
      in if dotIndex > sepIndex \<and>
            list_ex (\<lambda>x. x \<noteq> CHR ''.'')
              (take (nat (dotIndex - (sepIndex + 1))) (drop (nat (sepIndex + 1)) p))
         then (take (nat dotIndex) p, drop (nat dotIndex) p)
         else (p, []))"

text \<open>
  \<^verbatim>\<open>
  def get_ext(path: str) -> str:
      return splitext(path)[1].lower()
  \<close>
\<close>

definition get_ext :: "string \<Rightarrow> string" where
  "get_ext path = lower (snd (splitext path))"

section \<open>The glossary object\<close>

text \<open>
  An open reader is the stream of values it still has to yield: \<open>Some e\<close> is an entry
  object, \<open>None\<close> a falsy value (a reader may yield \<^verbatim>\<open>None\<close>). An entry filter's
  \<^verbatim>\<open>run\<close> returns an entry or a falsy value.
\<close>

type_synonym 'e reader = "'e option list"

type_synonym 'e entry_filter = "'e \<Rightarrow> 'e option"

text \<open>
  \<^verbatim>\<open>self._iter\<close> is a generator object. Generators run when they are pulled, so the
  model keeps which generator \<^verbatim>\<open>_updateIter\<close> built, with the arguments that call
  evaluated at once, and \<open>runGen\<close> below runs it. Each of them is wrapped in
  \<^verbatim>\<open>_applyEntryFiltersGen\<close>.
\<close>

datatype ('e, 'f) entry_gen =
    LoadedEntryGen
  | ReadersEntryGen
  | HsortStreamList "'e reader list" int "'f option"

text \<open>
  The user interface object \<^verbatim>\<open>self.ui\<close>, where it is truthy: its \<^verbatim>\<open>pref\<close> dictionary
  (\<open>None\<close> when it has no such attribute) and whether it has the methods
  \<^verbatim>\<open>progressInit\<close>, \<^verbatim>\<open>progress\<close> and \<^verbatim>\<open>progressEnd\<close> (calling one it does not have
  raises \<^verbatim>\<open>AttributeError\<close>; what they display is not modelled). \<open>ui_Any\<close> is the
  constructor's default, \<^verbatim>\<open>ui=Any\<close>: truthy, with none of these attributes.
\<close>

record ui =
  ui_pref :: "(string, bool) dict option"
  ui_progress :: bool

definition ui_Any :: ui where
  "ui_Any = \<lparr>ui_pref = None, ui_progress = False\<rparr>"

text \<open>
  The fields of a \<^verbatim>\<open>Glossary\<close> object, each \<^verbatim>\<open>self._x\<close> as \<open>g_x\<close>; \<open>g_ui\<close> is
  \<^verbatim>\<open>self.ui\<close>, \<open>None\<close> for a falsy one. Two fields are not Python's: \<open>g_log\<close> collects the
  log calls and \<open>g_closed\<close> the readers whose \<^verbatim>\<open>close()\<close> was called, in order.
  Type \<open>'e\<close> is the entry objects, \<open>'r\<close> the raw entries of \<^verbatim>\<open>_data\<close>, \<open>'f\<close> the callables a
  caller passes as sort key.
\<close>

record ('e, 'r, 'f) glossary =
  g_info :: "(string, string) dict"
  g_data :: "'r list"
  g_readers :: "'e reader list"
  g_iter :: "('e, 'f) entry_gen option"
  g_entryFilters :: "'e entry_filter list"
  g_sortKey :: "'f option"
  g_sortCacheSize :: int
  g_filename :: string
  g_defaultDefiFormat :: string
  g_progressbar :: bool
  g_ui :: "ui option"
  g_log :: "log_entry list"
  g_closed :: "'e reader list"

definition addlog :: "log_entry list \<Rightarrow> ('e, 'r, 'f) glossary \<Rightarrow> ('e, 'r, 'f) glossary" where
  "addlog entries g = g\<lparr>g_log := g_log g @ entries\<rparr>"

definition logmsg :: "level \<Rightarrow> string \<Rightarrow> ('e, 'r, 'f) glossary \<Rightarrow> ('e, 'r, 'f) glossary" where
  "logmsg lv msg g = addlog [(lv, msg)] g"

subsection \<open>Plugins and the class-level registry\<close>

text \<open>
  Modelled from the spec: the constants of \<^verbatim>\<open>flags.py\<close>, which is not among the
  sources. \<^verbatim>\<open>write\<close> compares a plugin's \<^verbatim>\<open>sortOnWrite\<close> with these four, and the spec
  (4.5) has each output format declare one of always, default-on, default-off, never.
\<close>

datatype sortOnWrite = ALWAYS | DEFAULT_YES | DEFAULT_NO | NEVER

text \<open>
  A reader class, as what \<^verbatim>\<open>reader = Reader(glos); reader.open(filename, **options)\<close>
  gives: the open reader, or the exception \<^verbatim>\<open>open\<close> raises. A plugin's \<^verbatim>\<open>read\<close> and
  \<^verbatim>\<open>write\<close> functions are called with the glossary, a file name and the options; they
  may change the glossary, and may raise. Type \<open>'o\<close> is the option values.
\<close>

type_synonym ('e, 'o) reader_class = "string \<Rightarrow> (string, 'o) dict \<Rightarrow> 'e reader result"

type_synonym ('e, 'r, 'f, 'o) plugin_fn =
  "('e, 'r, 'f) glossary \<Rightarrow> string \<Rightarrow> (string, 'o) dict \<Rightarrow> unit result \<times> ('e, 'r, 'f) glossary"

text \<open>
  A plugin module, with the attributes \<^verbatim>\<open>loadPlugin\<close> and \<^verbatim>\<open>write\<close> look at; \<open>None\<close> is
  an attribute the module does not have. \<open>p_Reader\<close> comes with the answer of
  \<^verbatim>\<open>issubclass(Reader, BaseReader)\<close>.
\<close>

record ('e, 'r, 'f, 'o) plugin =
  p_enable :: "bool option"
  p_format :: string
  p_extentions :: "string list"
  p_description :: "string option"
  p_Reader :: "(bool \<times> ('e, 'o) reader_class) option"
  p_read :: "('e, 'r, 'f, 'o) plugin_fn option"
  p_readOptions :: "string list option"
  p_write :: "('e, 'r, 'f, 'o) plugin_fn option"
  p_writeOptions :: "string list option"
  p_sortOnWrite :: sortOnWrite
  p_sortKey :: "'f option"

text \<open>
  The class attributes of \<^verbatim>\<open>Glossary\<close> that the methods below read. (The tables that
  only the user interface reads, \<^verbatim>\<open>formatsByFilename\<close>, \<^verbatim>\<open>formatsDesc\<close>, \<^verbatim>\<open>descFormat\<close>,
  \<^verbatim>\<open>descExt\<close>, \<^verbatim>\<open>extFormat\<close>, \<^verbatim>\<open>canReadWrite\<close> and the four sets, are left out.)
\<close>

record ('e, 'r, 'f, 'o) registry =
  plugins :: "(string, ('e, 'r, 'f, 'o) plugin) dict"
  formatsFilename :: "(string, string) dict"
  formatsExt :: "(string, string list) dict"
  readerClasses :: "(string, ('e, 'o) reader_class) dict"
  readFunctions :: "(string, ('e, 'r, 'f, 'o) plugin_fn) dict"
  formatsReadOptions :: "(string, string list) dict"
  writeFunctions :: "(string, ('e, 'r, 'f, 'o) plugin_fn) dict"
  formatsWriteOptions :: "(string, string list) dict"

subsection \<open>What the module imports\<close>

text \<open>
  The entry filter classes of \<^verbatim>\<open>entry_filters.py\<close>, which is not among the sources:
  each as the \<^verbatim>\<open>run\<close> method of its instance.
\<close>

record 'e entry_filters =
  StripEntryFilter :: "'e entry_filter"
  NonEmptyWordFilter :: "'e entry_filter"
  SkipDataEntryFilter :: "'e entry_filter"
  FixUnicodeFilter :: "'e entry_filter"
  LowerWordFilter :: "'e entry_filter"
  LangEntryFilter :: "'e entry_filter"
  CleanEntryFilter :: "'e entry_filter"
  NonEmptyDefiFilter :: "'e entry_filter"

text \<open>
  What else the module takes from outside, as parameters: \<^verbatim>\<open>fixUtf8\<close> of \<^verbatim>\<open>text_utils\<close>;
  \<^verbatim>\<open>getRaw\<close>, \<^verbatim>\<open>fromRaw\<close>, \<^verbatim>\<open>getEntrySortKey\<close> and \<^verbatim>\<open>getRawEntrySortKey\<close> of the
  \<^verbatim>\<open>Entry\<close> class (\<open>'k\<close> is the type of the sort keys); the module \<^verbatim>\<open>entry_filters\<close>; the
  functions of \<^verbatim>\<open>os.path\<close> that look at the file system (\<open>basename\<close> is also
  \<^verbatim>\<open>split(p)[1]\<close>); \<open>popen_error\<close>, whether
  \<^verbatim>\<open>subprocess.Popen(cmd, stdout=subprocess.PIPE).communicate()\<close> comes back with an
  error output for a command; \<open>importPlugin\<close>, what importing the module of that name
  from \<^verbatim>\<open>pyglossary.plugins\<close> gives; and \<open>readerLen\<close>, what \<^verbatim>\<open>len(reader)\<close> gives, the
  reader's own count of its entries, which may raise. Files are not modelled: what the
  external commands and \<^verbatim>\<open>os.remove\<close> do to them is left out.
\<close>

record ('e, 'r, 'f, 'k, 'o) env =
  fixUtf8 :: "string \<Rightarrow> string"
  getRaw :: "'e \<Rightarrow> 'r"
  fromRaw :: "'r \<Rightarrow> string \<Rightarrow> 'e"
  getEntrySortKey :: "'f option \<Rightarrow> 'e option \<Rightarrow> 'k"
  getRawEntrySortKey :: "'f option \<Rightarrow> 'r \<Rightarrow> 'k"
  ef :: "'e entry_filters"
  abspath :: "string \<Rightarrow> string"
  isdir :: "string \<Rightarrow> bool"
  isfile :: "string \<Rightarrow> bool"
  path_join :: "string \<Rightarrow> string \<Rightarrow> string"
  basename :: "string \<Rightarrow> string"
  dirname :: "string \<Rightarrow> string"
  popen_error :: "string list \<Rightarrow> bool"
  importPlugin :: "string \<Rightarrow> ('e, 'r, 'f, 'o) plugin result"
  readerLen :: "'e reader \<Rightarrow> nat result"

subsection \<open>Metadata\<close>

text \<open>
  \<^verbatim>\<open>
  infoKeysAliasDict = {
      "title": "name", "bookname": "name", "dbname": "name",
      "sourcelang": "sourceLang", "inputlang": "sourceLang", "origlang": "sourceLang",
      "targetlang": "targetLang", "outputlang": "targetLang", "destlang": "targetLang",
      "license": "copyright",
  }
  \<close>
\<close>

definition infoKeysAliasDict :: "(string, string) dict" where
  "infoKeysAliasDict =
     [(''title'', ''name''), (''bookname'', ''name''), (''dbname'', ''name''),
      (''sourcelang'', ''sourceLang''), (''inputlang'', ''sourceLang''),
      (''origlang'', ''sourceLang''),
      (''targetlang'', ''targetLang''), (''outputlang'', ''targetLang''),
      (''destlang'', ''targetLang''),
      (''license'', ''copyright'')]"

text \<open>
  The \<^verbatim>\<open>try: key = self.infoKeysAliasDict[key.lower()] except KeyError: pass\<close> that
  \<^verbatim>\<open>getInfo\<close> and \<^verbatim>\<open>setInfo\<close> share: a key with no alias stays as it was written.
\<close>

definition aliasKey :: "string \<Rightarrow> string" where
  "aliasKey key = (case map_of infoKeysAliasDict (lower key) of Some k \<Rightarrow> k | None \<Rightarrow> key)"

text \<open>
  \<^verbatim>\<open>
  def getInfo(self, key: str) -> str:
      key = str(key)
      try:
          key = self.infoKeysAliasDict[key.lower()]
      except KeyError:
          pass
      return self._info.get(key, "")
  \<close>
\<close>

definition getInfo :: "('e, 'r, 'f) glossary \<Rightarrow> string \<Rightarrow> string" where
  "getInfo g key = (case map_of (g_info g) (aliasKey key) of Some v \<Rightarrow> v | None \<Rightarrow> [])"

text \<open>
  \<^verbatim>\<open>
  def setInfo(self, key: str, value: str) -> None:
      origKey = key
      key = fixUtf8(key)
      value = fixUtf8(value)
      try:
          key = self.infoKeysAliasDict[key.lower()]
      except KeyError:
          pass
      if origKey != key:
          log.debug("setInfo: %s -> %s", origKey, key)
      self._info[key] = value
  \<close>
\<close>

definition setInfo ::
  "('e, 'r, 'f, 'k, 'o) env \<Rightarrow> ('e, 'r, 'f) glossary \<Rightarrow> string \<Rightarrow> string \<Rightarrow> ('e, 'r, 'f) glossary" where
  "setInfo env g origKey value0 =
     (let key = aliasKey (fixUtf8 env origKey);
          value = fixUtf8 env value0;
          g1 = (if origKey \<noteq> key then logmsg DEBUG ''setInfo: %s -> %s'' g else g)
      in g1\<lparr>g_info := AList.update key value (g_info g1)\<rparr>)"

subsection \<open>Reset and construction\<close>

text \<open>
  \<^verbatim>\<open>
  def clear(self) -> None:
      self._info = odict()
      self._data = []
      readers = self._readers
      for reader in readers:
          try:
              reader.close()
          except Exception:
              log.exception("")
      self._readers = []
      self._iter = None
      self._entryFilters = []
      self._sortKey = None
      self._sortCacheSize = 1000
      self._filename = ""
      self._defaultDefiFormat = "m"
      self._progressbar = True
  \<close>
  \<^verbatim>\<open>close()\<close> is called on every attached reader, in order; a \<^verbatim>\<open>close()\<close> that raises
  is caught here and is not modelled.
\<close>

definition clear :: "('e, 'r, 'f) glossary \<Rightarrow> ('e, 'r, 'f) glossary" where
  "clear g =
     g\<lparr>g_info := [],
       g_data := [],
       g_closed := g_closed g @ g_readers g,
       g_readers := [],
       g_iter := None,
       g_entryFilters := [],
       g_sortKey := None,
       g_sortCacheSize := 1000,
       g_filename := [],
       g_defaultDefiFormat := ''m'',
       g_progressbar := True\<rparr>"

text \<open>
  \<^verbatim>\<open>
  def __init__(self, info=None, ui=Any):
      self._readers = []
      self.clear()
      if info:
          ...
          for key, value in info.items():
              self.setInfo(key, value)
      self.ui = ui
  \<close>
  (\<open>info\<close> is a dict here; another type raises \<^verbatim>\<open>TypeError\<close>. The default of \<open>ui\<close> is
  \<open>Some ui_Any\<close>.)
\<close>

definition Glossary_init ::
  "('e, 'r, 'f, 'k, 'o) env \<Rightarrow> (string, string) dict \<Rightarrow> ui option \<Rightarrow> ('e, 'r, 'f) glossary" where
  "Glossary_init env info ui =
     fold (\<lambda>(key, value) g. setInfo env g key value) info
       (clear \<lparr>g_info = [], g_data = [], g_readers = [], g_iter = None, g_entryFilters = [],
          g_sortKey = None, g_sortCacheSize = 1000, g_filename = [],
          g_defaultDefiFormat = [], g_progressbar = True, g_ui = ui, g_log = [],
          g_closed = []\<rparr>)"

subsection \<open>The entry filter chain\<close>

text \<open>
  \<^verbatim>\<open>
  def updateEntryFilters(self) -> None:
      from . import entry_filters as ef
      self._entryFilters = []
      pref = getattr(self.ui, "pref", {})
      self._entryFilters.append(ef.StripEntryFilter(self))
      self._entryFilters.append(ef.NonEmptyWordFilter(self))
      if pref.get("skipResources", False):
          self._entryFilters.append(ef.SkipDataEntryFilter(self))
      if pref.get("utf8Check", True):
          self._entryFilters.append(ef.FixUnicodeFilter(self))
      if pref.get("lower", True):
          self._entryFilters.append(ef.LowerWordFilter(self))
      self._entryFilters.append(ef.LangEntryFilter(self))
      self._entryFilters.append(ef.CleanEntryFilter(self))
      self._entryFilters.append(ef.NonEmptyWordFilter(self))
      self._entryFilters.append(ef.NonEmptyDefiFilter(self))
  \<close>
\<close>

definition ui_getPref :: "ui option \<Rightarrow> (string, bool) dict" where
  "ui_getPref ui =
     (case ui of None \<Rightarrow> [] | Some u \<Rightarrow> (case ui_pref u of None \<Rightarrow> [] | Some pref \<Rightarrow> pref))"

definition pref_get :: "(string, bool) dict \<Rightarrow> string \<Rightarrow> bool \<Rightarrow> bool" where
  "pref_get pref name dflt = (case map_of pref name of Some v \<Rightarrow> v | None \<Rightarrow> dflt)"

definition updateEntryFilters ::
  "('e, 'r, 'f, 'k, 'o) env \<Rightarrow> ('e, 'r, 'f) glossary \<Rightarrow> ('e, 'r, 'f) glossary" where
  "updateEntryFilters env g =
     g\<lparr>g_entryFilters :=
         [StripEntryFilter (ef env), NonEmptyWordFilter (ef env)]
         @ (if pref_get (ui_getPref (g_ui g)) ''skipResources'' False
            then [SkipDataEntryFilter (ef env)] else [])
         @ (if pref_get (ui_getPref (g_ui g)) ''utf8Check'' True then [FixUnicodeFilter (ef env)] else [])
         @ (if pref_get (ui_getPref (g_ui g)) ''lower'' True then [LowerWordFilter (ef env)] else [])
         @ [LangEntryFilter (ef env), CleanEntryFilter (ef env), NonEmptyWordFilter (ef env),
            NonEmptyDefiFilter (ef env)]\<rparr>"

text \<open>
  \<^verbatim>\<open>
  def _applyEntryFiltersGen(self, gen):
      for entry in gen:
          if not entry:
              continue
          for entryFilter in self._entryFilters:
              newEntry = entryFilter.run(entry)
              if not newEntry:
                  break
              entry = newEntry
          else:
              yield entry
  \<close>
  \<open>runEntryFilters\<close> is the inner loop on one entry: what the loop ends with (\<open>None\<close>
  after a \<^verbatim>\<open>break\<close>, the entry to yield otherwise) and, in call order, the argument of
  every \<^verbatim>\<open>entryFilter.run\<close> call it made. \<open>applyEntryFiltersGen_trace\<close> is the outer loop:
  one step per element of \<open>gen\<close>; the generator yields the entries of the steps that end
  with one, in that order.
\<close>

fun runEntryFilters :: "'e entry_filter list \<Rightarrow> 'e \<Rightarrow> 'e option \<times> 'e list" where
  "runEntryFilters [] entry = (Some entry, [])"
| "runEntryFilters (entryFilter # rest) entry =
     (case entryFilter entry of
        None \<Rightarrow> (None, [entry])
      | Some newEntry \<Rightarrow>
          (case runEntryFilters rest newEntry of (r, calls) \<Rightarrow> (r, entry # calls)))"

fun applyEntryFiltersGen_trace ::
  "'e entry_filter list \<Rightarrow> 'e option list \<Rightarrow> ('e option \<times> 'e list) list" where
  "applyEntryFiltersGen_trace fs [] = []"
| "applyEntryFiltersGen_trace fs (None # gen) = (None, []) # applyEntryFiltersGen_trace fs gen"
| "applyEntryFiltersGen_trace fs (Some entry # gen) =
     runEntryFilters fs entry # applyEntryFiltersGen_trace fs gen"

definition applyEntryFiltersGen :: "'e entry_filter list \<Rightarrow> 'e option list \<Rightarrow> 'e list" where
  "applyEntryFiltersGen fs gen = List.map_filter fst (applyEntryFiltersGen_trace fs gen)"

subsection \<open>The streaming sort\<close>

text \<open>
  Modelled from the spec: \<^verbatim>\<open>hsortStreamList\<close> of \<^verbatim>\<open>sort_stream.py\<close>, which is not among
  the sources. The spec (4.5): ``partition each reader's stream into runs of up to C
  entries, sort each run in memory by the key, spill sorted runs to bounded auxiliary
  storage, then perform a k-way merge across all spilled runs (one reader advanced at a
  time per run, lowest-key entry emitted first, ties broken by input arrival order to
  keep the sort stable)''.

  \<open>runsOf C\<close> cuts one stream into runs of up to \<open>C\<close> entries. The spec gives no meaning
  to a run size below one, and \<^verbatim>\<open>sortWords\<close> never configures one; the model makes no
  runs then.
\<close>

function runsOf :: "nat \<Rightarrow> 'a list \<Rightarrow> 'a list list" where
  "runsOf C xs = (if C = 0 \<or> xs = [] then [] else take C xs # runsOf C (drop C xs))"
  by pat_completeness auto
termination
  by (relation "measure (\<lambda>(C, xs). length xs)") auto

declare runsOf.simps [simp del]

text \<open>
  Modelled from the spec: the sorted runs of all the streams, in arrival order (every
  run of the first stream, then every run of the second, and so on).
\<close>

definition spilledRuns :: "'a list list \<Rightarrow> nat \<Rightarrow> ('a \<Rightarrow> 'k::linorder) \<Rightarrow> 'a list list" where
  "spilledRuns streams C key =
     concat (map (\<lambda>stream. map (sort_key key) (runsOf C stream)) streams)"

text \<open>
  Modelled from the spec: one step of the k-way merge, which takes the lowest-key head
  among the runs, the earliest run winning a tie, and leaves the runs without it (a run
  that is used up is dropped).
\<close>

fun lowestHead ::
  "('a \<Rightarrow> 'k::linorder) \<Rightarrow> 'a list list \<Rightarrow> ('a \<times> 'a list list) option" where
  "lowestHead key [] = None"
| "lowestHead key ([] # runs) = lowestHead key runs"
| "lowestHead key ((x # xs) # runs) =
     (case lowestHead key runs of
        None \<Rightarrow> Some (x, xs # runs)
      | Some (y, runs') \<Rightarrow>
          if key x \<le> key y then Some (x, xs # runs) else Some (y, (x # xs) # runs'))"

lemma lowestHead_length:
  "lowestHead key runs = Some (x, runs') \<Longrightarrow> Suc (length (concat runs')) = length (concat runs)"
  by (induction key runs arbitrary: x runs' rule: lowestHead.induct)
     (auto split: option.splits if_splits)

text \<open>
  Modelled from the spec: the k-way merge, which repeats the step until no run has an
  entry left.
\<close>

function kmerge :: "('a \<Rightarrow> 'k::linorder) \<Rightarrow> 'a list list \<Rightarrow> 'a list" where
  "kmerge key runs =
     (case lowestHead key runs of None \<Rightarrow> [] | Some (x, runs') \<Rightarrow> x # kmerge key runs')"
  by pat_completeness auto
termination
  by (relation "measure (\<lambda>(key, runs). length (concat runs))")
     (auto dest: lowestHead_length)

declare kmerge.simps [simp del]

text \<open>
  Modelled from the spec: \<^verbatim>\<open>hsortStreamList(streams, cacheSize, key=key)\<close> itself, the
  merge of the sorted runs of up to \<open>cacheSize\<close> entries.
\<close>

definition hsortStreamList :: "'a list list \<Rightarrow> int \<Rightarrow> ('a \<Rightarrow> 'k::linorder) \<Rightarrow> 'a list" where
  "hsortStreamList streams cacheSize key = kmerge key (spilledRuns streams (nat cacheSize) key)"

subsection \<open>Iteration\<close>

text \<open>
  \<^verbatim>\<open>
  def progressInit(self, *args):
      if self.ui:
          self.ui.progressInit(*args)
  def progress(self, wordI, wordCount):
      if self.ui and wordI % (wordCount//500 + 1) == 0:
          self.ui.progress(min(wordI + 1, wordCount) / wordCount,
                           "%d / %d completed" % (wordI, wordCount))
  def progressEnd(self):
      if self.ui:
          self.ui.progressEnd()
  \<close>
  \<open>progressOn\<close> is \<^verbatim>\<open>self.ui and self._progressbar\<close>. \<open>progressCall\<close> is a call of
  one of these three methods: it raises \<^verbatim>\<open>AttributeError\<close> when the ui is truthy and
  lacks the method, and does nothing that is modelled otherwise. The callers below call
  \<^verbatim>\<open>progressInit\<close> first, so that is the call that raises.
\<close>

definition progressOn :: "('e, 'r, 'f) glossary \<Rightarrow> bool" where
  "progressOn g = (g_ui g \<noteq> None \<and> g_progressbar g)"

definition progressCall :: "('e, 'r, 'f) glossary \<Rightarrow> exn option" where
  "progressCall g =
     (case g_ui g of
        None \<Rightarrow> None
      | Some u \<Rightarrow> if ui_progress u then None else Some AttributeError)"

text \<open>
  \<open>readerWordCount\<close> is the \<^verbatim>\<open>wordCount\<close> with which \<^verbatim>\<open>_readersEntryGen\<close> and
  \<^verbatim>\<open>loadReader\<close> begin on a reader, and the glossary after the logging:
  \<^verbatim>\<open>
  wordCount = 0
  progressbar = False
  if self.ui and self._progressbar:
      try:
          wordCount = len(reader)
      except Exception:
          log.exception("")
      if wordCount:
          progressbar = True
  \<close>
\<close>

definition readerWordCount ::
  "('e, 'r, 'f, 'k, 'o) env \<Rightarrow> ('e, 'r, 'f) glossary \<Rightarrow> 'e reader \<Rightarrow>
     (nat \<times> ('e, 'r, 'f) glossary) result" where
  "readerWordCount env g reader =
     (if progressOn g then
        case readerLen env reader of
          Return n \<Rightarrow> Return (n, g)
        | Raise e \<Rightarrow> if isException e then Return (0, logmsg EXCEPTION [] g) else Raise e
      else Return (0, g))"

text \<open>
  \<^verbatim>\<open>
  def _loadedEntryGen(self):
      wordCount = len(self._data)
      progressbar = self.ui and self._progressbar
      if progressbar:
          self.progressInit("Writing")
      for index, rawEntry in enumerate(self._data):
          yield Entry.fromRaw(rawEntry, defaultDefiFormat=self._defaultDefiFormat)
          if progressbar:
              self.progress(index, wordCount)
      if progressbar:
          self.progressEnd()

  def _readersEntryGen(self):
      for reader in self._readers:
          wordCount = 0
          progressbar = False
          if self.ui and self._progressbar:
              try:
                  wordCount = len(reader)
              except Exception:
                  log.exception("")
              if wordCount:
                  progressbar = True
          if progressbar:
              self.progressInit("Converting")
          try:
              for index, entry in enumerate(reader):
                  yield entry
                  if progressbar:
                      self.progress(index, wordCount)
          finally:
              reader.close()
          if progressbar:
              self.progressEnd()
  \<close>
  A generator pulled to its end on the glossary as it stands gives the entries it yields
  and the exception that ends the pull, if one does (what the pull does to the readers
  and to the log is left out of the generators). \<open>runGen\<close> is what a generator yields
  and \<open>genRaise\<close> the exception that ends it. In \<^verbatim>\<open>_updateIter\<close> the sorted stream is
  \<^verbatim>\<open>hsortStreamList(self._readers, cacheSize, key=Entry.getEntrySortKey(sortKey))\<close>.
\<close>

definition loadedEntryGen ::
  "('e, 'r, 'f, 'k, 'o) env \<Rightarrow> ('e, 'r, 'f) glossary \<Rightarrow> 'e option list \<times> exn option" where
  "loadedEntryGen env g =
     (if progressOn g \<and> progressCall g \<noteq> None then ([], progressCall g)
      else (map (\<lambda>rawEntry. Some (fromRaw env rawEntry (g_defaultDefiFormat g))) (g_data g),
            None))"

fun readersEntryGen_loop ::
  "('e, 'r, 'f, 'k, 'o) env \<Rightarrow> ('e, 'r, 'f) glossary \<Rightarrow> 'e reader list \<Rightarrow> 'e option list \<times> exn option" where
  "readersEntryGen_loop env g [] = ([], None)"
| "readersEntryGen_loop env g (reader # readers) =
     (case readerWordCount env g reader of
        Raise e \<Rightarrow> ([], Some e)
      | Return (wordCount, g1) \<Rightarrow>
          if wordCount \<noteq> 0 \<and> progressCall g \<noteq> None then ([], progressCall g)
          else (let (entries, e) = readersEntryGen_loop env g readers
                in (reader @ entries, e)))"

definition readersEntryGen ::
  "('e, 'r, 'f, 'k, 'o) env \<Rightarrow> ('e, 'r, 'f) glossary \<Rightarrow> 'e option list \<times> exn option" where
  "readersEntryGen env g = readersEntryGen_loop env g (g_readers g)"

fun runGen ::
  "('e, 'r, 'f, 'k::linorder, 'o) env \<Rightarrow> ('e, 'r, 'f) glossary \<Rightarrow> ('e, 'f) entry_gen \<Rightarrow> 'e option list" where
  "runGen env g LoadedEntryGen = fst (loadedEntryGen env g)"
| "runGen env g ReadersEntryGen = fst (readersEntryGen env g)"
| "runGen env g (HsortStreamList streams cacheSize sortKey) =
     hsortStreamList streams cacheSize (getEntrySortKey env sortKey)"

fun genRaise ::
  "('e, 'r, 'f, 'k::linorder, 'o) env \<Rightarrow> ('e, 'r, 'f) glossary \<Rightarrow> ('e, 'f) entry_gen \<Rightarrow> exn option" where
  "genRaise env g LoadedEntryGen = snd (loadedEntryGen env g)"
| "genRaise env g ReadersEntryGen = snd (readersEntryGen env g)"
| "genRaise env g (HsortStreamList streams cacheSize sortKey) = None"

text \<open>
  \<^verbatim>\<open>
  def __iter__(self):
      if self._iter is None:
          log.error("Trying to iterate over a blank Glossary, must call `glos.read` first")
          return iter([])
      return self._iter
  \<close>
  The iterator returned is \<open>None\<close> for \<^verbatim>\<open>iter([])\<close>; \<open>drain\<close> gives the entries an
  iterator yields, each generator being wrapped in \<^verbatim>\<open>_applyEntryFiltersGen\<close>.
\<close>

definition glos_iter ::
  "('e, 'r, 'f) glossary \<Rightarrow> ('e, 'f) entry_gen option result \<times> ('e, 'r, 'f) glossary" where
  "glos_iter g =
     (case g_iter g of
        None \<Rightarrow>
          (Return None,
           logmsg ERROR ''Trying to iterate over a blank Glossary, must call glos.read first'' g)
      | Some gen \<Rightarrow> (Return (Some gen), g))"

definition drain ::
  "('e, 'r, 'f, 'k::linorder, 'o) env \<Rightarrow> ('e, 'r, 'f) glossary \<Rightarrow> ('e, 'f) entry_gen option \<Rightarrow> 'e list" where
  "drain env g it =
     (case it of
        None \<Rightarrow> []
      | Some gen \<Rightarrow> applyEntryFiltersGen (g_entryFilters g) (runGen env g gen))"

subsection \<open>Loading readers, rebuilding the iterator, sorting\<close>

text \<open>
  \<^verbatim>\<open>
  def addEntryObj(self, entry):
      self._data.append(entry.getRaw())

  def loadReader(self, reader):
      wordCount = 0
      progressbar = False
      if self.ui and self._progressbar:
          try:
              wordCount = len(reader)
          except Exception:
              log.exception("")
          if wordCount:
              progressbar = True
      if progressbar:
          self.progressInit("Reading")
      try:
          for index, entry in enumerate(reader):
              if entry:
                  self.addEntryObj(entry)
              if progressbar:
                  self.progress(index, wordCount)
      finally:
          reader.close()
      if progressbar:
          self.progressEnd()
      return True
  \<close>
  \<^verbatim>\<open>progressInit\<close> is called before the \<^verbatim>\<open>try\<close>: when it raises, the reader is neither
  read nor closed. A ui that has \<^verbatim>\<open>progressInit\<close> has the other two methods.
\<close>

fun loadReader_loop :: "('e, 'r, 'f, 'k, 'o) env \<Rightarrow> 'r list \<Rightarrow> 'e reader \<Rightarrow> 'r list" where
  "loadReader_loop env data [] = data"
| "loadReader_loop env data (None # reader) = loadReader_loop env data reader"
| "loadReader_loop env data (Some entry # reader) =
     loadReader_loop env (data @ [getRaw env entry]) reader"

definition loadReader ::
  "('e, 'r, 'f, 'k, 'o) env \<Rightarrow> ('e, 'r, 'f) glossary \<Rightarrow> 'e reader \<Rightarrow>
     bool result \<times> ('e, 'r, 'f) glossary" where
  "loadReader env g reader =
     (case readerWordCount env g reader of
        Raise e \<Rightarrow> (Raise e, g)
      | Return (wordCount, g1) \<Rightarrow>
          (case (if wordCount \<noteq> 0 then progressCall g1 else None) of
             Some e \<Rightarrow> (Raise e, g1)
           | None \<Rightarrow>
               (Return True,
                g1\<lparr>g_data := loadReader_loop env (g_data g1) reader,
                   g_closed := g_closed g1 @ [reader]\<rparr>)))"

text \<open>
  \<^verbatim>\<open>
  def _inactivateDirectMode(self):
      for reader in self._readers:
          self.loadReader(reader)
      self._readers = []
  \<close>
  The exception of a \<^verbatim>\<open>loadReader\<close> that raises ends the loop and leaves
  \<^verbatim>\<open>self._readers\<close> as it was (the readers loaded before it are in \<open>g_closed\<close>, and
  used up; the list keeps them as they were attached).
\<close>

fun inactivateDirectMode_loop ::
  "('e, 'r, 'f, 'k, 'o) env \<Rightarrow> ('e, 'r, 'f) glossary \<Rightarrow> 'e reader list \<Rightarrow>
     exn option \<times> ('e, 'r, 'f) glossary" where
  "inactivateDirectMode_loop env g [] = (None, g)"
| "inactivateDirectMode_loop env g (reader # readers) =
     (case loadReader env g reader of
        (Raise e, g1) \<Rightarrow> (Some e, g1)
      | (Return ok, g1) \<Rightarrow> inactivateDirectMode_loop env g1 readers)"

definition inactivateDirectMode ::
  "('e, 'r, 'f, 'k, 'o) env \<Rightarrow> ('e, 'r, 'f) glossary \<Rightarrow> exn option \<times> ('e, 'r, 'f) glossary" where
  "inactivateDirectMode env g =
     (case inactivateDirectMode_loop env g (g_readers g) of
        (Some e, g1) \<Rightarrow> (Some e, g1)
      | (None, g1) \<Rightarrow> (None, g1\<lparr>g_readers := []\<rparr>))"

text \<open>
  \<^verbatim>\<open>
  def _updateIter(self, sort=False):
      if self._readers:  # direct mode
          if sort:
              sortKey = self._sortKey
              cacheSize = self._sortCacheSize
              log.info("Stream sorting enabled, cache size: %s", cacheSize)
              self._iter = self._applyEntryFiltersGen(iter(hsortStreamList(
                  self._readers, cacheSize, key=Entry.getEntrySortKey(sortKey))))
          else:
              self._iter = self._applyEntryFiltersGen(self._readersEntryGen())
      else:
          self._iter = self._applyEntryFiltersGen(self._loadedEntryGen())
  \<close>
\<close>

definition updateIter :: "('e, 'r, 'f) glossary \<Rightarrow> bool \<Rightarrow> ('e, 'r, 'f) glossary" where
  "updateIter g dosort =
     (if g_readers g \<noteq> [] then
        if dosort then
          (logmsg INFO ''Stream sorting enabled, cache size: %s'' g)
            \<lparr>g_iter := Some (HsortStreamList (g_readers g) (g_sortCacheSize g) (g_sortKey g))\<rparr>
        else g\<lparr>g_iter := Some ReadersEntryGen\<rparr>
      else g\<lparr>g_iter := Some LoadedEntryGen\<rparr>)"

text \<open>
  \<^verbatim>\<open>
  def sortWords(self, key=None, cacheSize=0):
      if self._readers:
          self._sortKey = key
          if cacheSize > 0:
              self._sortCacheSize = cacheSize  # FIXME
      else:
          self._data.sort(key=Entry.getRawEntrySortKey(key))
      self._updateIter(sort=True)
  \<close>
  (\<^verbatim>\<open>list.sort\<close> is stable, as \<open>sort_key\<close> is.)
\<close>

definition sortWords ::
  "('e, 'r, 'f, 'k::linorder, 'o) env \<Rightarrow> ('e, 'r, 'f) glossary \<Rightarrow> 'f option \<Rightarrow> int \<Rightarrow> ('e, 'r, 'f) glossary" where
  "sortWords env g key cacheSize =
     updateIter
       (if g_readers g \<noteq> [] then
          (let g1 = g\<lparr>g_sortKey := key\<rparr>
           in if cacheSize > 0 then g1\<lparr>g_sortCacheSize := cacheSize\<rparr> else g1)
        else g\<lparr>g_data := sort_key (getRawEntrySortKey env key) (g_data g)\<rparr>)
       True"

section \<open>Plugins\<close>

text \<open>
  \<^verbatim>\<open>
  @classmethod
  def loadPlugin(cls, directory, pluginFilename):
      sys.path.append(directory)
      try:
          plugin = getattr(__import__("pyglossary.plugins", fromlist=[pluginFilename]),
                           pluginFilename)
      except Exception as e:
          log.exception("Error while importing plugin %s", pluginFilename)
          raise e
      finally:
          sys.path.pop()
      if (not hasattr(plugin, "enable")) or (not plugin.enable):
          log.warning("Plugin disabled or not a plugin: %s", pluginFilename)
          return
      plugin.filename = pluginFilename
      format = plugin.format
      extentions = plugin.extentions
      ...
      if hasattr(plugin, "description"):
          desc = plugin.description
      else:
          desc = "%s (%s)" % (format, extentions[0])
      cls.plugins[format] = plugin
      cls.formatsFilename[format] = pluginFilename
      cls.formatsByFilename[pluginFilename] = format
      cls.descFormat[desc] = format
      cls.descExt[desc] = extentions[0]
      for ext in extentions:
          cls.extFormat[ext] = format
      cls.formatsExt[format] = extentions
      cls.formatsDesc[format] = desc
      hasReadSupport = False
      hasWriteSupport = False
      try:
          Reader = plugin.Reader
      except AttributeError:
          pass
      else:
          if issubclass(Reader, BaseReader):
              cls.readerClasses[format] = Reader
              hasReadSupport = True
          else:
              log.error("Invalid Reader class in \"%s\" plugin, not subclass of BaseReader" % format)
      try:
          cls.readFunctions[format] = plugin.read
      except AttributeError:
          pass
      else:
          hasReadSupport = True
      if hasReadSupport:
          cls.readFormats.add(format)
          cls.readDesc.add(desc)
          cls.formatsReadOptions[format] = getattr(plugin, "readOptions", [])
      if hasattr(plugin, "write"):
          hasWriteSupport = True
          cls.writeFunctions[format] = plugin.write
          cls.writeFormats.add(format)
          cls.writeDesc.add(desc)
          cls.formatsWriteOptions[format] = getattr(plugin, "writeOptions", [])
      cls.canReadWrite[format] = (hasReadSupport, hasWriteSupport)
      return plugin
  \<close>
  A class method has no glossary: it returns the registry it leaves and its log calls.
  (\<open>directory\<close> only extends \<^verbatim>\<open>sys.path\<close> for the import, which is \<open>importPlugin\<close>.)
\<close>

definition loadPlugin_register ::
  "('e, 'r, 'f, 'o) registry \<Rightarrow> string \<Rightarrow> ('e, 'r, 'f, 'o) plugin \<Rightarrow>
   ('e, 'r, 'f, 'o) registry \<times> log_entry list" where
  "loadPlugin_register reg format plugin =
     (let reg1 = reg\<lparr>formatsExt := AList.update format (p_extentions plugin) (formatsExt reg)\<rparr>;
          (reg2, hasReadSupport1, l) =
            (case p_Reader plugin of
               None \<Rightarrow> (reg1, False, [])
             | Some (isBaseReader, Reader) \<Rightarrow>
                 if isBaseReader
                 then (reg1\<lparr>readerClasses := AList.update format Reader (readerClasses reg1)\<rparr>,
                       True, [])
                 else (reg1, False,
                       [(ERROR, ''Invalid Reader class in %s plugin, not subclass of BaseReader'')]));
          (reg3, hasReadSupport) =
            (case p_read plugin of
               None \<Rightarrow> (reg2, hasReadSupport1)
             | Some rd \<Rightarrow> (reg2\<lparr>readFunctions := AList.update format rd (readFunctions reg2)\<rparr>, True));
          reg4 =
            (if hasReadSupport
             then reg3\<lparr>formatsReadOptions :=
                    AList.update format (case p_readOptions plugin of None \<Rightarrow> [] | Some os \<Rightarrow> os)
                      (formatsReadOptions reg3)\<rparr>
             else reg3);
          reg5 =
            (case p_write plugin of
               None \<Rightarrow> reg4
             | Some wr \<Rightarrow>
                 reg4\<lparr>writeFunctions := AList.update format wr (writeFunctions reg4),
                      formatsWriteOptions :=
                        AList.update format (case p_writeOptions plugin of None \<Rightarrow> [] | Some os \<Rightarrow> os)
                          (formatsWriteOptions reg4)\<rparr>)
      in (reg5, l))"

definition loadPlugin ::
  "('e, 'r, 'f, 'k, 'o) env \<Rightarrow> ('e, 'r, 'f, 'o) registry \<Rightarrow> string \<Rightarrow>
   ('e, 'r, 'f, 'o) plugin option result \<times> ('e, 'r, 'f, 'o) registry \<times> log_entry list" where
  "loadPlugin env reg pluginFilename =
     (case importPlugin env pluginFilename of
        Raise e \<Rightarrow>
          (Raise e, reg,
           if isException e then [(EXCEPTION, ''Error while importing plugin %s'')] else [])
      | Return plugin \<Rightarrow>
          if p_enable plugin \<noteq> Some True
          then (Return None, reg, [(WARNING, ''Plugin disabled or not a plugin: %s'')])
          else if p_description plugin = None \<and> p_extentions plugin = []
          then (Raise IndexError, reg, [])
          else
            (let format = p_format plugin;
                 reg1 = reg\<lparr>plugins := AList.update format plugin (plugins reg),
                            formatsFilename :=
                              AList.update format pluginFilename (formatsFilename reg)\<rparr>
             in if p_extentions plugin = [] then (Raise IndexError, reg1, [])
                else (case loadPlugin_register reg1 format plugin of
                        (reg2, l) \<Rightarrow> (Return (Some plugin), reg2, l))))"

text \<open>
  \<^verbatim>\<open>
  @classmethod
  def loadPluginByFormat(cls, format):
      if format in cls.plugins:
          return
      filename = cls.formatsFilename[format]
      cls.loadPlugin(pluginsDir, filename)
  \<close>
\<close>

definition loadPluginByFormat ::
  "('e, 'r, 'f, 'k, 'o) env \<Rightarrow> ('e, 'r, 'f, 'o) registry \<Rightarrow> string \<Rightarrow>
   unit result \<times> ('e, 'r, 'f, 'o) registry \<times> log_entry list" where
  "loadPluginByFormat env reg format =
     (if map_of (plugins reg) format \<noteq> None then (Return (), reg, [])
      else
        (case map_of (formatsFilename reg) format of
           None \<Rightarrow> (Raise KeyError, reg, [])
         | Some filename \<Rightarrow>
             (case loadPlugin env reg filename of
                (Raise e, reg1, l) \<Rightarrow> (Raise e, reg1, l)
              | (Return p, reg1, l) \<Rightarrow> (Return (), reg1, l))))"

text \<open>
  The check of the options that \<^verbatim>\<open>read\<close> and \<^verbatim>\<open>write\<close> share:
  \<^verbatim>\<open>
  for key in list(options.keys()):
      if key not in validOptionKeys:
          log.error("Invalid read option ... given for %s format" % format)
          del options[key]
  \<close>
\<close>

definition checkOptions ::
  "string \<Rightarrow> string list \<Rightarrow> (string, 'o) dict \<Rightarrow> (string, 'o) dict \<times> log_entry list" where
  "checkOptions msg validOptionKeys options =
     (filter (\<lambda>(key, v). key \<in> set validOptionKeys) options,
      map (\<lambda>kv. (ERROR, msg)) (filter (\<lambda>(key, v). key \<notin> set validOptionKeys) options))"

text \<open>
  The loop without a \<^verbatim>\<open>break\<close> that \<^verbatim>\<open>read\<close> and \<^verbatim>\<open>_detectOutput\<close> share (the last
  format that lists the extension is kept):
  \<^verbatim>\<open>
  for key, extList in Glossary.formatsExt.items():
      if ext in extList:
          format = key
  \<close>
\<close>

fun formatByExt :: "(string, string list) dict \<Rightarrow> string \<Rightarrow> string \<Rightarrow> string" where
  "formatByExt [] ext format = format"
| "formatByExt ((key, extList) # items) ext format =
     formatByExt items ext (if ext \<in> set extList then key else format)"

section \<open>Reading\<close>

text \<open>
  The decompression block of \<^verbatim>\<open>read\<close>:
  \<^verbatim>\<open>
  delFile = False
  ext = get_ext(filename)
  if ext in (".gz", ".bz2", ".zip"):
      if ext == ".bz2":
          output, error = subprocess.Popen(["bzip2", "-dk", filename],
                                           stdout=subprocess.PIPE).communicate()
          if error:
              log.error(error + "\n" + "Failed to decompress file \"%s\"" % filename)
              return False
          else:
              filename = filename[:-4]
              ext = get_ext(filename)
              delFile = True
      elif ext == ".gz":
          ... ["gzip", "-dc", filename] ...
              filename = filename[:-3]
              open(filename, "w").write(output)
              ...
      elif ext == ".zip":
          ... ["unzip", filename, "-d", dirname(filename)] ...
              filename = filename[:-4]
              ...
  \<close>
  \<open>Return None\<close> is the \<^verbatim>\<open>return False\<close>; otherwise the new \<open>(filename, ext, delFile)\<close>.
  In the \<^verbatim>\<open>.gz\<close> branch \<^verbatim>\<open>output\<close> is the \<^verbatim>\<open>bytes\<close> read from the pipe and the file is
  opened in text mode, so \<^verbatim>\<open>open(filename, "w").write(output)\<close> raises \<^verbatim>\<open>TypeError\<close>.
\<close>

definition read_decompress ::
  "('e, 'r, 'f, 'k, 'o) env \<Rightarrow> ('e, 'r, 'f) glossary \<Rightarrow> string \<Rightarrow>
   (string \<times> string \<times> bool) option result \<times> ('e, 'r, 'f) glossary" where
  "read_decompress env g filename =
     (let ext = get_ext filename;
          failed = logmsg ERROR ''Failed to decompress file %s'' g
      in if ext = ''.bz2'' then
           if popen_error env [''bzip2'', ''-dk'', filename] then (Return None, failed)
           else (let filename1 = take (length filename - 4) filename
                 in (Return (Some (filename1, get_ext filename1, True)), g))
         else if ext = ''.gz'' then
           if popen_error env [''gzip'', ''-dc'', filename] then (Return None, failed)
           else (Raise TypeError, g)
         else if ext = ''.zip'' then
           if popen_error env [''unzip'', filename, ''-d'', dirname env filename]
           then (Return None, failed)
           else (let filename1 = take (length filename - 4) filename
                 in (Return (Some (filename1, get_ext filename1, True)), g))
         else (Return (Some (filename, ext, False)), g))"

text \<open>
  The rest of \<^verbatim>\<open>read\<close>, once the format is known and its plugin loaded:
  \<^verbatim>\<open>
  validOptionKeys = self.formatsReadOptions[format]
  for key in list(options.keys()): ...
  filenameNoExt, ext = splitext(filename)
  if not ext.lower() in self.formatsExt[format]:
      filenameNoExt = filename
  self._filename = filenameNoExt
  if not self.getInfo("name"):
      self.setInfo("name", split(filename)[1])
  self._progressbar = progressbar
  if format in self.readerClasses:
      Reader = self.readerClasses[format]
      reader = Reader(self)
      reader.open(filename, **options)
      if direct:
          self._readers.append(reader)
          log.info("Using Reader class from %s plugin for direct conversion without loading into memory")
      else:
          self.loadReader(reader)
  else:
      if direct:
          log.warning("No `Reader` class found in %s plugin, falling back to indirect mode")
      result = self.readFunctions[format](self, filename, **options)
      if delFile:
          os.remove(filename)
  self._updateIter()
  return True
  \<close>
\<close>

definition read_load ::
  "('e, 'r, 'f, 'k, 'o) env \<Rightarrow> ('e, 'r, 'f, 'o) registry \<Rightarrow> ('e, 'r, 'f) glossary \<Rightarrow>
   string \<Rightarrow> string \<Rightarrow> bool \<Rightarrow> bool \<Rightarrow> (string, 'o) dict \<Rightarrow>
   bool result \<times> ('e, 'r, 'f) glossary" where
  "read_load env reg g filename format direct progressbar options0 =
     (case map_of (formatsReadOptions reg) format of
        None \<Rightarrow> (Raise KeyError, g)
      | Some validOptionKeys \<Rightarrow>
          (let (options, l) =
                 checkOptions ''Invalid read option %s given for %s format'' validOptionKeys options0;
               g1 = addlog l g
           in case map_of (formatsExt reg) format of
                None \<Rightarrow> (Raise KeyError, g1)
              | Some extList \<Rightarrow>
                  (let (filenameNoExt0, ext) = splitext filename;
                       filenameNoExt = (if lower ext \<notin> set extList then filename else filenameNoExt0);
                       g2 = g1\<lparr>g_filename := filenameNoExt\<rparr>;
                       g3 = (if getInfo g2 ''name'' = []
                             then setInfo env g2 ''name'' (basename env filename) else g2);
                       g4 = g3\<lparr>g_progressbar := progressbar\<rparr>
                   in case map_of (readerClasses reg) format of
                        Some Reader \<Rightarrow>
                          (case Reader filename options of
                             Raise e \<Rightarrow> (Raise e, g4)
                           | Return reader \<Rightarrow>
                               if direct then
                                 (Return True,
                                  updateIter
                                    (logmsg INFO
                                       ''Using Reader class from %s plugin for direct conversion without loading into memory''
                                       (g4\<lparr>g_readers := g_readers g4 @ [reader]\<rparr>))
                                    False)
                               else
                                 (case loadReader env g4 reader of
                                    (Raise e, g5) \<Rightarrow> (Raise e, g5)
                                  | (Return ok, g5) \<Rightarrow> (Return True, updateIter g5 False)))
                      | None \<Rightarrow>
                          (let g5 = (if direct
                                     then logmsg WARNING
                                            ''No Reader class found in %s plugin, falling back to indirect mode''
                                            g4
                                     else g4)
                           in case map_of (readFunctions reg) format of
                                None \<Rightarrow> (Raise KeyError, g5)
                              | Some readFunction \<Rightarrow>
                                  (case readFunction g5 filename options of
                                     (Raise e, g6) \<Rightarrow> (Raise e, g6)
                                   | (Return u, g6) \<Rightarrow> (Return True, updateIter g6 False))))))"

text \<open>
  \<^verbatim>\<open>
  def read(self, filename, format="", direct=False, progressbar=True, **options):
      filename = abspath(filename)
      # don't allow direct=False when there are readers
      # (read is called before with direct=True)
      if self._readers and not direct:
          raise ValueError(
              "there are already %s readers" % len(self._readers) +
              ", you can not read with direct=False mode"
          )
      self.updateEntryFilters()
      ###  (the decompression block)
      if not format:
          for key, extList in Glossary.formatsExt.items():
              if ext in extList:
                  format = key
          if not format:
              log.error("Unknown extension \"%s\" for read support!", ext)
              return False
      Glossary.loadPluginByFormat(format)
      ...  (the rest, above)
  \<close>
\<close>

definition read ::
  "('e, 'r, 'f, 'k, 'o) env \<Rightarrow> ('e, 'r, 'f, 'o) registry \<Rightarrow> ('e, 'r, 'f) glossary \<Rightarrow>
   string \<Rightarrow> string \<Rightarrow> bool \<Rightarrow> bool \<Rightarrow> (string, 'o) dict \<Rightarrow>
   bool result \<times> ('e, 'r, 'f) glossary \<times> ('e, 'r, 'f, 'o) registry" where
  "read env reg g filename0 format0 direct progressbar options =
     (let filename = abspath env filename0
      in if g_readers g \<noteq> [] \<and> \<not> direct then (Raise ValueError, g, reg)
         else
           (case read_decompress env (updateEntryFilters env g) filename of
              (Raise e, g1) \<Rightarrow> (Raise e, g1, reg)
            | (Return None, g1) \<Rightarrow> (Return False, g1, reg)
            | (Return (Some (filename1, ext, delFile)), g1) \<Rightarrow>
                (let format = (if format0 = [] then formatByExt (formatsExt reg) ext format0
                               else format0)
                 in if format = []
                    then (Return False,
                          logmsg ERROR ''Unknown extension %s for read support!'' g1, reg)
                    else
                      (case loadPluginByFormat env reg format of
                         (Raise e, reg1, l) \<Rightarrow> (Raise e, addlog l g1, reg1)
                       | (Return u, reg1, l) \<Rightarrow>
                           (case read_load env reg1 (addlog l g1) filename1 format direct
                                   progressbar options of
                              (r, g2) \<Rightarrow> (r, g2, reg1))))))"

section \<open>Detecting the output format\<close>

text \<open>
  The three loops of \<^verbatim>\<open>_detectOutput\<close> over \<^verbatim>\<open>Glossary.formatsExt.items()\<close>, each run
  only while \<^verbatim>\<open>format\<close> is empty. The first:
  \<^verbatim>\<open>
  for fmt, extList in Glossary.formatsExt.items():
      for e in extList:
          if format == e[1:] or format == e:
              format = fmt
              ext = e
              break
      if format:
          break
  \<close>
\<close>

fun detectOutput_byFormat :: "(string, string list) dict \<Rightarrow> string \<Rightarrow> string" where
  "detectOutput_byFormat [] format = format"
| "detectOutput_byFormat ((fmt, extList) # items) format =
     (let format1 =
            (if list_ex (\<lambda>e. format = drop 1 e \<or> format = e) extList then fmt else format)
      in if format1 \<noteq> [] then format1 else detectOutput_byFormat items format1)"

text \<open>
  The second (\<open>selfFilename\<close> is \<^verbatim>\<open>self._filename\<close>; \<^verbatim>\<open>extList[0]\<close> raises on an empty
  list):
  \<^verbatim>\<open>
  for fmt, extList in Glossary.formatsExt.items():
      if filename == fmt:
          format = filename
          ext = extList[0]
          filename = self._filename + ext
          break
      for e in extList:
          if filename == e[1:] or filename == e:
              format = fmt
              ext = e
              filename = self._filename + ext
              break
      if format:
          break
  \<close>
  It returns the new \<open>(format, filename)\<close>.
\<close>

fun detectOutput_byName ::
  "string \<Rightarrow> (string, string list) dict \<Rightarrow> string \<Rightarrow> string \<Rightarrow> (string \<times> string) result" where
  "detectOutput_byName selfFilename [] format filename = Return (format, filename)"
| "detectOutput_byName selfFilename ((fmt, extList) # items) format filename =
     (if filename = fmt then
        (case extList of
           [] \<Rightarrow> Raise IndexError
         | ext # exts \<Rightarrow> Return (filename, selfFilename @ ext))
      else
        (case find (\<lambda>e. filename = drop 1 e \<or> filename = e) extList of
           Some e \<Rightarrow>
             if fmt \<noteq> [] then Return (fmt, selfFilename @ e)
             else detectOutput_byName selfFilename items fmt (selfFilename @ e)
         | None \<Rightarrow>
             if format \<noteq> [] then Return (format, filename)
             else detectOutput_byName selfFilename items format filename))"

text \<open>
  \<^verbatim>\<open>
  def _detectOutput(self, filename="", format=""):
      """
      returns (filename, format, archiveType) or None
      """
      archiveType = ""
      if filename:
          ext = ""
          filenameNoExt, fext = splitext(filename)
          fext = fext.lower()
          if fext in (".gz", ".bz2", ".zip"):
              archiveType = fext[1:]
              filename = filenameNoExt
              fext = get_ext(filename)
          if not format:
              (the first loop)
              if not format:
                  (the second loop)
              if not format:
                  for fmt, extList in Glossary.formatsExt.items():
                      if fext in extList:
                          format = fmt
                          ext = fext
          if not format:
              log.error("Unable to detect write format!")
              return None
      else:  # filename is empty
          if not self._filename:
              log.error("Invalid filename %r", filename)
              return None
          filename = self._filename  # no extension
          if not format:
              log.error("No filename nor format is given for output file")
              return None
          try:
              filename += Glossary.formatsExt[format][0]
          except KeyError:
              log.error("Invalid write format")
              return None
      return filename, format, archiveType
  \<close>
\<close>

definition detectOutput ::
  "('e, 'r, 'f, 'o) registry \<Rightarrow> ('e, 'r, 'f) glossary \<Rightarrow> string \<Rightarrow> string \<Rightarrow>
   (string \<times> string \<times> string) option result \<times> ('e, 'r, 'f) glossary" where
  "detectOutput reg g filename0 format0 =
     (if filename0 \<noteq> [] then
        (let (filenameNoExt, fext0) = splitext filename0;
             fext1 = lower fext0;
             isArchive = (fext1 = ''.gz'' \<or> fext1 = ''.bz2'' \<or> fext1 = ''.zip'');
             archiveType = (if isArchive then drop 1 fext1 else []);
             filename = (if isArchive then filenameNoExt else filename0);
             fext = (if isArchive then get_ext filename else fext1)
         in if format0 = [] then
              (let format1 = detectOutput_byFormat (formatsExt reg) format0
               in case (if format1 = []
                        then detectOutput_byName (g_filename g) (formatsExt reg) format1 filename
                        else Return (format1, filename)) of
                    Raise e \<Rightarrow> (Raise e, g)
                  | Return (format2, filename2) \<Rightarrow>
                      (let format3 = (if format2 = [] then formatByExt (formatsExt reg) fext format2
                                      else format2)
                       in if format3 = []
                          then (Return None, logmsg ERROR ''Unable to detect write format!'' g)
                          else (Return (Some (filename2, format3, archiveType)), g)))
            else (Return (Some (filename, format0, archiveType)), g))
      else if g_filename g = [] then (Return None, logmsg ERROR ''Invalid filename %r'' g)
      else if format0 = []
      then (Return None, logmsg ERROR ''No filename nor format is given for output file'' g)
      else
        (case map_of (formatsExt reg) format0 of
           None \<Rightarrow> (Return None, logmsg ERROR ''Invalid write format'' g)
         | Some [] \<Rightarrow> (Raise IndexError, g)
         | Some (ext # exts) \<Rightarrow> (Return (Some (g_filename g @ ext, format0, [])), g)))"

section \<open>Writing\<close>

text \<open>
  The sort policy block of \<^verbatim>\<open>write\<close>, on the caller's \<^verbatim>\<open>sort\<close> (\<open>None\<close>, \<open>Some True\<close>
  or \<open>Some False\<close>):
  \<^verbatim>\<open>
  plugin = self.plugins[format]
  sortOnWrite = plugin.sortOnWrite
  if sortOnWrite == ALWAYS:
      if sort is False:
          log.warning("Writing %s requires sorting, ignoring user sort=False option")
      if self._readers:
          log.warning("Writing to %s format requires full sort, falling back to indirect mode")
          self._inactivateDirectMode()
          log.info("Loaded %s entries", len(self._data))
      sort = True
  elif sortOnWrite == DEFAULT_YES:
      if sort is None:
          sort = True
  elif sortOnWrite == DEFAULT_NO:
      if sort is None:
          sort = False
  elif sortOnWrite == NEVER:
      if sort:
          log.warning("Plugin prevents sorting before write, ignoring user sort=True option")
      sort = False
  \<close>
  It returns the new \<^verbatim>\<open>sort\<close>, or raises what \<^verbatim>\<open>_inactivateDirectMode\<close> raises.
\<close>

definition write_sortOnWrite ::
  "('e, 'r, 'f, 'k, 'o) env \<Rightarrow> sortOnWrite \<Rightarrow> bool option \<Rightarrow> ('e, 'r, 'f) glossary \<Rightarrow>
   bool option result \<times> ('e, 'r, 'f) glossary" where
  "write_sortOnWrite env sortOnWrite dosort g =
     (case sortOnWrite of
        ALWAYS \<Rightarrow>
          (let g1 = (if dosort = Some False
                     then logmsg WARNING
                            ''Writing %s requires sorting, ignoring user sort=False option'' g
                     else g)
           in if g_readers g1 \<noteq> [] then
                (case inactivateDirectMode env
                        (logmsg WARNING
                           ''Writing to %s format requires full sort, falling back to indirect mode''
                           g1) of
                   (Some e, g2) \<Rightarrow> (Raise e, g2)
                 | (None, g2) \<Rightarrow> (Return (Some True), logmsg INFO ''Loaded %s entries'' g2))
              else (Return (Some True), g1))
      | DEFAULT_YES \<Rightarrow> (Return (if dosort = None then Some True else dosort), g)
      | DEFAULT_NO \<Rightarrow> (Return (if dosort = None then Some False else dosort), g)
      | NEVER \<Rightarrow>
          (Return (Some False),
           if dosort = Some True
           then logmsg WARNING
                  ''Plugin prevents sorting before write, ignoring user sort=True option'' g
           else g))"

text \<open>
  The sorting block:
  \<^verbatim>\<open>
  if sort:
      if sortKey is None:
          try:
              sortKey = plugin.sortKey
          except AttributeError:
              pass
          else:
              log.debug("Using sort key function from %s plugin" % format)
      elif sortOnWrite == ALWAYS:
          try:
              sortKey = plugin.sortKey
          except AttributeError:
              pass
          else:
              log.warning("Ignoring user-defined sort order, and using key function from %s plugin")
      self.sortWords(key=sortKey, cacheSize=sortCacheSize)
  else:
      self._updateIter(sort=False)
  \<close>
\<close>

definition write_sort ::
  "('e, 'r, 'f, 'k::linorder, 'o) env \<Rightarrow> ('e, 'r, 'f, 'o) plugin \<Rightarrow> bool option \<Rightarrow> 'f option \<Rightarrow>
   int \<Rightarrow> ('e, 'r, 'f) glossary \<Rightarrow> ('e, 'r, 'f) glossary" where
  "write_sort env plugin dosort sortKey sortCacheSize g =
     (if dosort = Some True then
        (let (sortKey1, g1) =
               (if sortKey = None then
                  (case p_sortKey plugin of
                     None \<Rightarrow> (sortKey, g)
                   | Some k \<Rightarrow> (Some k, logmsg DEBUG ''Using sort key function from %s plugin'' g))
                else if p_sortOnWrite plugin = ALWAYS then
                  (case p_sortKey plugin of
                     None \<Rightarrow> (sortKey, g)
                   | Some k \<Rightarrow>
                       (Some k,
                        logmsg WARNING
                          ''Ignoring user-defined sort order, and using key function from %s plugin''
                          g))
                else (sortKey, g))
         in sortWords env g1 sortKey1 sortCacheSize)
      else updateIter g False)"

text \<open>
  \<^verbatim>\<open>write\<close> up to the call of the plugin's write function:
  \<^verbatim>\<open>
  def write(self, filename, format, sort=None, sortKey=None, sortCacheSize=1000, **options):
      """
      ...
      returns absolute path of output file, or None if failed
      """
      if isdir(filename):
          filename = join(filename, basename(self._filename))
      Glossary.loadPluginByFormat(format)
      try:
          validOptionKeys = self.formatsWriteOptions[format]
      except KeyError:
          log.critical("No write support for \"%s\" format", format)
          return None
      for key in list(options.keys()): ...
      (the sort policy block)
      (the sorting block)
  \<close>
  \<open>Inl\<close> is a call that ends here, with what it returns or raises; \<open>Inr\<close> is a call that
  goes on to the plugin's write function, with the glossary and registry at that point,
  the file name, the options left and the value of \<^verbatim>\<open>sort\<close> after the policy block.
\<close>

definition write_setup ::
  "('e, 'r, 'f, 'k::linorder, 'o) env \<Rightarrow> ('e, 'r, 'f, 'o) registry \<Rightarrow> ('e, 'r, 'f) glossary \<Rightarrow>
   string \<Rightarrow> string \<Rightarrow> bool option \<Rightarrow> 'f option \<Rightarrow> int \<Rightarrow> (string, 'o) dict \<Rightarrow>
   (string option result \<times> ('e, 'r, 'f) glossary \<times> ('e, 'r, 'f, 'o) registry) +
   (('e, 'r, 'f) glossary \<times> ('e, 'r, 'f, 'o) registry \<times> string \<times> (string, 'o) dict \<times> bool option)" where
  "write_setup env reg g filename0 format dosort sortKey sortCacheSize options0 =
     (let filename = (if isdir env filename0
                      then path_join env filename0 (basename env (g_filename g))
                      else filename0)
      in case loadPluginByFormat env reg format of
           (Raise e, reg1, l) \<Rightarrow> Inl (Raise e, addlog l g, reg1)
         | (Return u, reg1, l) \<Rightarrow>
             (case map_of (formatsWriteOptions reg1) format of
                None \<Rightarrow>
                  Inl (Return None,
                       logmsg CRITICAL ''No write support for %s format'' (addlog l g), reg1)
              | Some validOptionKeys \<Rightarrow>
                  (let (options, l2) =
                         checkOptions ''Invalid write option %s given for %s format''
                           validOptionKeys options0;
                       g1 = addlog l2 (addlog l g)
                   in case map_of (plugins reg1) format of
                        None \<Rightarrow> Inl (Raise KeyError, g1, reg1)
                      | Some plugin \<Rightarrow>
                          (case write_sortOnWrite env (p_sortOnWrite plugin) dosort g1 of
                             (Raise e, g2) \<Rightarrow> Inl (Raise e, g2, reg1)
                           | (Return dosort1, g2) \<Rightarrow>
                               Inr (write_sort env plugin dosort1 sortKey sortCacheSize g2,
                                    reg1, filename, options, dosort1)))))"

text \<open>
  The call of the plugin's write function:
  \<^verbatim>\<open>
      filename = abspath(filename)
      log.info("Writing to file \"%s\"", filename)
      try:
          self.writeFunctions[format](self, filename, **options)
      except Exception:
          log.exception("Exception while calling plugin\'s write function")
          return None
      finally:
          self.clear()
      return filename
  \<close>
  \<^verbatim>\<open>except Exception\<close> catches the exceptions that \<open>isException\<close>, the \<^verbatim>\<open>KeyError\<close> of
  \<^verbatim>\<open>self.writeFunctions[format]\<close> among them; any other goes on to the caller, after
  the \<^verbatim>\<open>finally\<close>.
\<close>

definition write_call ::
  "('e, 'r, 'f, 'k, 'o) env \<Rightarrow> ('e, 'r, 'f, 'o) registry \<Rightarrow> ('e, 'r, 'f) glossary \<Rightarrow>
   string \<Rightarrow> string \<Rightarrow> (string, 'o) dict \<Rightarrow> string option result \<times> ('e, 'r, 'f) glossary" where
  "write_call env reg g filename0 format options =
     (let filename = abspath env filename0;
          g1 = logmsg INFO ''Writing to file %s'' g
      in case map_of (writeFunctions reg) format of
           None \<Rightarrow>
             (Return None,
              clear (logmsg EXCEPTION ''Exception while calling plugin's write function'' g1))
         | Some writeFunction \<Rightarrow>
             (case writeFunction g1 filename options of
                (Raise e, g2) \<Rightarrow>
                  if isException e then
                    (Return None,
                     clear (logmsg EXCEPTION ''Exception while calling plugin's write function'' g2))
                  else (Raise e, clear g2)
              | (Return u, g2) \<Rightarrow> (Return (Some filename), clear g2)))"

text \<open>
  \<^verbatim>\<open>write\<close> as a whole (\<open>write\<close> is a keyword of Isabelle, so the method is
  \<open>Glossary_write\<close> here).
\<close>

definition Glossary_write ::
  "('e, 'r, 'f, 'k::linorder, 'o) env \<Rightarrow> ('e, 'r, 'f, 'o) registry \<Rightarrow> ('e, 'r, 'f) glossary \<Rightarrow>
   string \<Rightarrow> string \<Rightarrow> bool option \<Rightarrow> 'f option \<Rightarrow> int \<Rightarrow> (string, 'o) dict \<Rightarrow>
   string option result \<times> ('e, 'r, 'f) glossary \<times> ('e, 'r, 'f, 'o) registry" where
  "Glossary_write env reg g filename format dosort sortKey sortCacheSize options =
     (case write_setup env reg g filename format dosort sortKey sortCacheSize options of
        Inl early \<Rightarrow> early
      | Inr (g1, reg1, filename1, options1, dosort1) \<Rightarrow>
          (case write_call env reg1 g1 filename1 format options1 of
             (r, g2) \<Rightarrow> (r, g2, reg1)))"

section \<open>Converting\<close>

text \<open>
  \<^verbatim>\<open>
  def archiveOutDir(self, filename, archiveType):
      try:
          os.remove("%s.%s" % (filename, archiveType))
      except OSError:
          pass
      if archiveType == "gz":
          output, error = subprocess.Popen(["gzip", filename], stdout=subprocess.PIPE).communicate()
          if error:
              log.error(error + "\n" + "Failed to compress file \"%s\"" % filename)
      elif archiveType == "bz2":
          ... ["bzip2", filename] ...
      elif archiveType == "zip":
          dirn, name = split(filename)
          with indir(dirn):
              ... ["zip", filename+".zip", name, "-m"] ...
      archiveFilename = "%s.%s" % (filename, archiveType)
      if isfile(archiveFilename):
          return archiveFilename
      else:
          return filename
  \<close>
\<close>

definition archiveOutDir ::
  "('e, 'r, 'f, 'k, 'o) env \<Rightarrow> ('e, 'r, 'f) glossary \<Rightarrow> string \<Rightarrow> string \<Rightarrow>
   string \<times> ('e, 'r, 'f) glossary" where
  "archiveOutDir env g filename archiveType =
     (let cmd =
            (if archiveType = ''gz'' then Some [''gzip'', filename]
             else if archiveType = ''bz2'' then Some [''bzip2'', filename]
             else if archiveType = ''zip''
             then Some [''zip'', filename @ ''.zip'', basename env filename, ''-m'']
             else None);
          g1 = (case cmd of
                  None \<Rightarrow> g
                | Some c \<Rightarrow>
                    if popen_error env c then logmsg ERROR ''Failed to compress file %s'' g else g);
          archiveFilename = filename @ ''.'' @ archiveType
      in (if isfile env archiveFilename then archiveFilename else filename, g1))"

text \<open>
  \<^verbatim>\<open>
  def convert(self, inputFilename, inputFormat="", direct=None, progressbar=True,
              outputFilename="", outputFormat="", sort=None, sortKey=None,
              sortCacheSize=1000, readOptions=None, writeOptions=None):
      """
      returns absolute path of output file, or None if failed
      """
      if not readOptions:
          readOptions = {}
      if not writeOptions:
          writeOptions = {}
      outputArgs = self._detectOutput(filename=outputFilename, format=outputFormat)
      if not outputArgs:
          log.error("Writing file \"%s\" failed.", outputFilename)
          return None
      outputFilename, outputFormat, archiveType = outputArgs
      if direct is None:
          if sort is not True:
              direct = True  # FIXME
          else:
              direct = False
      tm0 = now()
      if not self.read(inputFilename, format=inputFormat, direct=direct,
                       progressbar=progressbar, **readOptions):
          return None
      log.info("")
      finalOutputFile = self.write(outputFilename, outputFormat, sort=sort, sortKey=sortKey,
                                   sortCacheSize=sortCacheSize, **writeOptions)
      log.info("")
      if not finalOutputFile:
          log.error("Writing file \"%s\" failed.", outputFilename)
          return None
      if archiveType:
          finalOutputFile = self.archiveOutDir(finalOutputFile, archiveType)
      log.info("Writing file \"%s\" done.", finalOutputFile)
      log.info("Running time of convert: %.1f seconds", now() - tm0)
      return finalOutputFile
  \<close>
\<close>

definition convert ::
  "('e, 'r, 'f, 'k::linorder, 'o) env \<Rightarrow> ('e, 'r, 'f, 'o) registry \<Rightarrow> ('e, 'r, 'f) glossary \<Rightarrow>
   string \<Rightarrow> string \<Rightarrow> bool option \<Rightarrow> bool \<Rightarrow> string \<Rightarrow> string \<Rightarrow> bool option \<Rightarrow> 'f option \<Rightarrow>
   int \<Rightarrow> (string, 'o) dict \<Rightarrow> (string, 'o) dict \<Rightarrow>
   string option result \<times> ('e, 'r, 'f) glossary \<times> ('e, 'r, 'f, 'o) registry" where
  "convert env reg g inputFilename inputFormat direct progressbar outputFilename outputFormat
     dosort sortKey sortCacheSize readOptions writeOptions =
     (case detectOutput reg g outputFilename outputFormat of
        (Raise e, g1) \<Rightarrow> (Raise e, g1, reg)
      | (Return None, g1) \<Rightarrow> (Return None, logmsg ERROR ''Writing file %s failed.'' g1, reg)
      | (Return (Some (outputFilename1, outputFormat1, archiveType)), g1) \<Rightarrow>
          (let direct1 = (case direct of None \<Rightarrow> dosort \<noteq> Some True | Some d \<Rightarrow> d)
           in case read env reg g1 inputFilename inputFormat direct1 progressbar readOptions of
                (Raise e, g2, reg2) \<Rightarrow> (Raise e, g2, reg2)
              | (Return False, g2, reg2) \<Rightarrow> (Return None, g2, reg2)
              | (Return True, g2, reg2) \<Rightarrow>
                  (case Glossary_write env reg2 (logmsg INFO [] g2) outputFilename1 outputFormat1 dosort
                          sortKey sortCacheSize writeOptions of
                     (Raise e, g3, reg3) \<Rightarrow> (Raise e, g3, reg3)
                   | (Return None, g3, reg3) \<Rightarrow>
                       (Return None,
                        logmsg ERROR ''Writing file %s failed.'' (logmsg INFO [] g3), reg3)
                   | (Return (Some written), g3, reg3) \<Rightarrow>
                       (let g4 = logmsg INFO [] g3
                        in if written = []
                           then (Return None, logmsg ERROR ''Writing file %s failed.'' g4, reg3)
                           else
                             (let (finalOutputFile, g5) =
                                    (if archiveType \<noteq> []
                                     then archiveOutDir env g4 written archiveType
                                     else (written, g4))
                              in (Return (Some finalOutputFile),
                                  logmsg INFO ''Running time of convert: %.1f seconds''
                                    (logmsg INFO ''Writing file %s done.'' g5),
                                  reg3))))))"

section \<open>The properties, as the specification words them\<close>

text \<open>
  The filter chain as a chain of responsibility. \<open>chain_spec\<close> passes an entry through
  the stages in order, each stage's result feeding the next, a discard ending it.
  \<open>chainStep fs e (r, calls)\<close> says that \<open>calls\<close> are the arguments of the stages that
  ran on \<open>e\<close>, in order: stage \<open>0\<close> got \<open>e\<close>, stage \<open>j + 1\<close> got what stage \<open>j\<close>
  returned, the last stage that ran returned \<open>r\<close>, and if \<open>r\<close> is an entry every stage
  ran.
\<close>

definition chain_spec :: "'e entry_filter list \<Rightarrow> 'e \<Rightarrow> 'e option" where
  "chain_spec fs e = fold (\<lambda>f r. Option.bind r f) fs (Some e)"

definition chainStep :: "'e entry_filter list \<Rightarrow> 'e \<Rightarrow> 'e option \<times> 'e list \<Rightarrow> bool" where
  "chainStep fs e step =
     (case step of (r, calls) \<Rightarrow>
        length calls \<le> length fs \<and>
        (fs \<noteq> [] \<longrightarrow> calls \<noteq> [] \<and> hd calls = e) \<and>
        (\<forall>j. Suc j < length calls \<longrightarrow> (fs ! j) (calls ! j) = Some (calls ! Suc j)) \<and>
        r = (if calls = [] then Some e else (fs ! (length calls - 1)) (last calls)) \<and>
        (r \<noteq> None \<longrightarrow> length calls = length fs))"

text \<open>Every run is sorted by the key.\<close>

definition sortedRuns :: "('a \<Rightarrow> 'k::linorder) \<Rightarrow> 'a list list \<Rightarrow> bool" where
  "sortedRuns key runs = (\<forall>r \<in> set runs. sorted (map key r))"

text \<open>
  Resolving the output format. \<open>stripArchive\<close> is the file name without a trailing
  archive suffix, the archive type and the extension that is left. A registry entry
  names a file name when the file name is its format name or one of its extensions,
  with or without the dot; it lists an extension when the extension is in its list.
\<close>

definition stripArchive :: "string \<Rightarrow> string \<times> string \<times> string" where
  "stripArchive filename =
     (let (filenameNoExt, fext0) = splitext filename;
          fext = lower fext0
      in if fext = ''.gz'' \<or> fext = ''.bz2'' \<or> fext = ''.zip''
         then (filenameNoExt, drop 1 fext, get_ext filenameNoExt)
         else (filename, [], fext))"

definition namesFormat :: "string \<Rightarrow> string \<times> string list \<Rightarrow> bool" where
  "namesFormat filename item =
     (case item of (fmt, extList) \<Rightarrow>
        filename = fmt \<or> list_ex (\<lambda>e. filename = drop 1 e \<or> filename = e) extList)"

definition listsExt :: "string \<Rightarrow> string \<times> string list \<Rightarrow> bool" where
  "listsExt fext item = (case item of (fmt, extList) \<Rightarrow> fext \<in> set extList)"

text \<open>
  The precedence as the specification has it: an explicit format; else the extension,
  looked up in the registry; else a file name that is a format name or an extension.
\<close>

definition claimedFormat :: "(string, string list) dict \<Rightarrow> string \<Rightarrow> string \<Rightarrow> string option" where
  "claimedFormat items filename0 format0 =
     (if format0 \<noteq> [] then Some format0
      else
        (case stripArchive filename0 of (filename, archiveType, fext) \<Rightarrow>
           (case find (listsExt fext) items of
              Some item \<Rightarrow> Some (fst item)
            | None \<Rightarrow> map_option fst (find (namesFormat filename) items))))"

text \<open>
  The precedence of \<^verbatim>\<open>_detectOutput\<close>. A registry entry has a short extension when one
  of its extensions is empty or a single character: the first loop takes the first such
  entry. \<open>namedExt\<close> is the extension the second loop takes from the entry that names
  the file name: the entry's first extension when the file name is the format name,
  else the first extension that is the file name, with or without its dot.
  \<open>resolvedOutput\<close> is the outcome: with no file name, the glossary's own file name
  and the first extension of a format that must be given and registered; with a file
  name, an explicit format; else the first entry with a short extension; else the first
  entry that names the file name, the output file being then the glossary's own file
  name with that entry's extension; else the last entry that lists the extension.
\<close>

definition shortExt :: "string \<times> string list \<Rightarrow> bool" where
  "shortExt item = (case item of (fmt, extList) \<Rightarrow> list_ex (\<lambda>e. [] = drop 1 e \<or> [] = e) extList)"

definition namedExt :: "string \<Rightarrow> string \<times> string list \<Rightarrow> string option" where
  "namedExt filename item =
     (case item of (fmt, extList) \<Rightarrow>
        if filename = fmt then (case extList of [] \<Rightarrow> None | ext # exts \<Rightarrow> Some ext)
        else find (\<lambda>e. filename = drop 1 e \<or> filename = e) extList)"

definition resolvedOutput ::
  "(string, string list) dict \<Rightarrow> string \<Rightarrow> string \<Rightarrow> string \<Rightarrow>
   (string \<times> string \<times> string) option result" where
  "resolvedOutput items selfFilename filename0 format0 =
     (if filename0 = [] then
        (if selfFilename = [] \<or> format0 = [] then Return None
         else
           (case map_of items format0 of
              None \<Rightarrow> Return None
            | Some [] \<Rightarrow> Raise IndexError
            | Some (ext # exts) \<Rightarrow> Return (Some (selfFilename @ ext, format0, []))))
      else
        (case stripArchive filename0 of (filename, archiveType, fext) \<Rightarrow>
           if format0 \<noteq> [] then Return (Some (filename, format0, archiveType))
           else
             (case find shortExt items of
                Some item \<Rightarrow> Return (Some (filename, fst item, archiveType))
              | None \<Rightarrow>
                  (case find (namesFormat filename) items of
                     Some item \<Rightarrow>
                       (case namedExt filename item of
                          None \<Rightarrow> Raise IndexError
                        | Some ext \<Rightarrow> Return (Some (selfFilename @ ext, fst item, archiveType)))
                   | None \<Rightarrow>
                       (case find (listsExt fext) (rev items) of
                          Some item \<Rightarrow> Return (Some (filename, fst item, archiveType))
                        | None \<Rightarrow> Return None)))))"

section \<open>Example values\<close>

text \<open>
  A small world for the concrete cases below: entries and raw entries are numbers, an
  entry's sort key is the number itself, \<^verbatim>\<open>NonEmptyWordFilter\<close> drops the entry \<open>0\<close> and
  the other filters keep every entry as it is; no plugin can be imported; a reader's
  length is the number of values it yields. The glossary \<open>glos0\<close> is made with
  \<^verbatim>\<open>Glossary(ui=None)\<close>.
\<close>

definition ef0 :: "nat entry_filters" where
  "ef0 = \<lparr>StripEntryFilter = Some, NonEmptyWordFilter = (\<lambda>e. if e = 0 then None else Some e),
     SkipDataEntryFilter = Some, FixUnicodeFilter = Some, LowerWordFilter = Some,
     LangEntryFilter = Some, CleanEntryFilter = Some, NonEmptyDefiFilter = Some\<rparr>"

definition env0 :: "(nat, nat, unit, nat, unit) env" where
  "env0 = \<lparr>fixUtf8 = (\<lambda>s. s), getRaw = (\<lambda>e. e), fromRaw = (\<lambda>r d. r),
     getEntrySortKey = (\<lambda>f e. case e of None \<Rightarrow> 0 | Some n \<Rightarrow> n),
     getRawEntrySortKey = (\<lambda>f r. r), ef = ef0,
     abspath = (\<lambda>p. p), isdir = (\<lambda>p. False), isfile = (\<lambda>p. False),
     path_join = (\<lambda>a b. a @ ''/'' @ b), basename = (\<lambda>p. p), dirname = (\<lambda>p. []),
     popen_error = (\<lambda>c. False), importPlugin = (\<lambda>n. Raise (Exception ''ImportError'')),
     readerLen = (\<lambda>reader. Return (length reader))\<rparr>"

definition glos0 :: "(nat, nat, unit) glossary" where
  "glos0 = Glossary_init env0 [] None"

definition reg0 :: "(nat, nat, unit, unit) registry" where
  "reg0 = \<lparr>plugins = [], formatsFilename = [], formatsExt = [], readerClasses = [],
     readFunctions = [], formatsReadOptions = [], writeFunctions = [],
     formatsWriteOptions = []\<rparr>"

text \<open>
  A glossary in direct mode: the filter chain that \<^verbatim>\<open>read\<close> builds, and one reader
  that still has the entries \<open>2\<close>, \<open>0\<close> and \<open>1\<close> to yield.
\<close>

definition glos1 :: "(nat, nat, unit) glossary" where
  "glos1 = (updateEntryFilters env0 glos0)\<lparr>g_readers := [[Some 2, Some 0, Some 1]]\<rparr>"

text \<open>
  Two output formats: \<open>A\<close> always sorts on write and its write function succeeds;
  \<open>B\<close> does not sort unless asked and its write function raises. Both plugins are
  loaded.
\<close>

definition plugin_a :: "(nat, nat, unit, unit) plugin" where
  "plugin_a = \<lparr>p_enable = Some True, p_format = ''A'', p_extentions = [''.a''],
     p_description = None, p_Reader = None, p_read = None, p_readOptions = None,
     p_write = Some (\<lambda>g filename options. (Return (), g)), p_writeOptions = None,
     p_sortOnWrite = ALWAYS, p_sortKey = None\<rparr>"

definition plugin_b :: "(nat, nat, unit, unit) plugin" where
  "plugin_b = \<lparr>p_enable = Some True, p_format = ''B'', p_extentions = [''.b''],
     p_description = None, p_Reader = None, p_read = None, p_readOptions = None,
     p_write = Some (\<lambda>g filename options. (Raise (Exception ''disk full''), g)),
     p_writeOptions = None, p_sortOnWrite = DEFAULT_NO, p_sortKey = None\<rparr>"

definition reg_ab :: "(nat, nat, unit, unit) registry" where
  "reg_ab = \<lparr>plugins = [(''A'', plugin_a), (''B'', plugin_b)],
     formatsFilename = [(''A'', ''a_plugin''), (''B'', ''b_plugin'')],
     formatsExt = [(''A'', [''.a'']), (''B'', [''.b''])],
     readerClasses = [], readFunctions = [], formatsReadOptions = [],
     writeFunctions = [(''A'', \<lambda>g filename options. (Return (), g)),
                       (''B'', \<lambda>g filename options. (Raise (Exception ''disk full''), g))],
     formatsWriteOptions = [(''A'', []), (''B'', [])]\<rparr>"

text \<open>
  A format \<open>K\<close> whose write function is interrupted from the keyboard.
\<close>

definition plugin_k :: "(nat, nat, unit, unit) plugin" where
  "plugin_k = \<lparr>p_enable = Some True, p_format = ''K'', p_extentions = [''.k''],
     p_description = None, p_Reader = None, p_read = None, p_readOptions = None,
     p_write = Some (\<lambda>g filename options. (Raise KeyboardInterrupt, g)),
     p_writeOptions = None, p_sortOnWrite = DEFAULT_NO, p_sortKey = None\<rparr>"

definition reg_k :: "(nat, nat, unit, unit) registry" where
  "reg_k = \<lparr>plugins = [(''K'', plugin_k)],
     formatsFilename = [(''K'', ''k_plugin'')],
     formatsExt = [(''K'', [''.k''])],
     readerClasses = [], readFunctions = [], formatsReadOptions = [],
     writeFunctions = [(''K'', \<lambda>g filename options. (Raise KeyboardInterrupt, g))],
     formatsWriteOptions = [(''K'', [])]\<rparr>"

text \<open>
  A glossary in direct mode with one entry in its list and one reader that still has
  \<open>3\<close>, a falsy value and \<open>1\<close> to yield.
\<close>

definition glos2 :: "(nat, nat, unit) glossary" where
  "glos2 = (updateIter (glos0\<lparr>g_readers := [[Some 3, None, Some 1]], g_data := [2]\<rparr>) False)"

text \<open>
  A registry in which the file name \<^verbatim>\<open>a.b\<close> is an extension of format \<open>A\<close>, without
  its dot, and has the extension of format \<open>B\<close>.
\<close>

definition reg_dots :: "(nat, nat, unit, unit) registry" where
  "reg_dots = \<lparr>plugins = [], formatsFilename = [],
     formatsExt = [(''A'', [''.a.b'']), (''B'', [''.b''])],
     readerClasses = [], readFunctions = [], formatsReadOptions = [], writeFunctions = [],
     formatsWriteOptions = []\<rparr>"

lemma glos0_simp:
  "glos0 = \<lparr>g_info = [], g_data = [], g_readers = [], g_iter = None, g_entryFilters = [],
     g_sortKey = None, g_sortCacheSize = 1000, g_filename = [],
     g_defaultDefiFormat = ''m'', g_progressbar = True, g_ui = None, g_log = [],
     g_closed = []\<rparr>"
  by (simp add: glos0_def Glossary_init_def clear_def)

lemma glos2_simp:
  "glos2 = \<lparr>g_info = [], g_data = [2], g_readers = [[Some 3, None, Some 1]],
     g_iter = Some ReadersEntryGen, g_entryFilters = [],
     g_sortKey = None, g_sortCacheSize = 1000, g_filename = [],
     g_defaultDefiFormat = ''m'', g_progressbar = True, g_ui = None, g_log = [],
     g_closed = []\<rparr>"
  by (simp add: glos2_def glos0_simp updateIter_def)

section \<open>Mode exclusivity\<close>

text \<open>
  C2. On a glossary with a reader attached, \<^verbatim>\<open>read\<close> with \<^verbatim>\<open>direct=False\<close> raises (a
  \<^verbatim>\<open>ValueError\<close>, the state error of the specification) and leaves the whole glossary,
  its entry list and its readers included, and the registry as they were: nothing is
  read and nothing is merged.
\<close>

theorem read_indirect_with_readers:
  "g_readers g \<noteq> [] \<Longrightarrow>
   read env reg g filename format False progressbar options = (Raise ValueError, g, reg)"
  by (simp add: read_def)

theorem read_indirect_with_readers_witness:
  "read env0 reg0 (glos0\<lparr>g_readers := [[Some 1]], g_data := [5]\<rparr>) ''in.txt'' [] False True []
     = (Raise ValueError, glos0\<lparr>g_readers := [[Some 1]], g_data := [5]\<rparr>, reg0)"
  using read_indirect_with_readers
    [of "glos0\<lparr>g_readers := [[Some 1]], g_data := [5]\<rparr>" env0 reg0 "''in.txt''" "[]" True "[]"]
  by simp

section \<open>The sort cache size\<close>

text \<open>
  C5. In direct mode \<^verbatim>\<open>sortWords\<close> never fails; it sets the sort key, replaces the
  configured cache size by a positive \<open>cacheSize\<close> only (a \<open>cacheSize\<close> of zero or less
  keeps the size configured before), and rebuilds the iterator as the sorted stream of
  the attached readers. Nothing else of the glossary changes, but for one line in the
  log.
\<close>

theorem sortWords_direct:
  "g_readers g \<noteq> [] \<Longrightarrow>
   sortWords env g key cacheSize =
     (let C = (if cacheSize > 0 then cacheSize else g_sortCacheSize g)
      in (logmsg INFO ''Stream sorting enabled, cache size: %s'' g)
           \<lparr>g_iter := Some (HsortStreamList (g_readers g) C key),
            g_sortKey := key, g_sortCacheSize := C\<rparr>)"
  by (simp add: sortWords_def updateIter_def logmsg_def addlog_def Let_def)

theorem sortWords_direct_witness:
  "g_sortCacheSize (sortWords env0 (glos0\<lparr>g_readers := [[Some 1]]\<rparr>) (Some ()) (- 5)) = 1000 \<and>
   g_sortCacheSize (sortWords env0 (glos0\<lparr>g_readers := [[Some 1]]\<rparr>) (Some ()) 0) = 1000 \<and>
   g_sortKey (sortWords env0 (glos0\<lparr>g_readers := [[Some 1]]\<rparr>) (Some ()) 0) = Some () \<and>
   g_iter (sortWords env0 (glos0\<lparr>g_readers := [[Some 1]]\<rparr>) (Some ()) 0)
     = Some (HsortStreamList [[Some 1]] 1000 (Some ())) \<and>
   g_sortCacheSize (sortWords env0 (glos0\<lparr>g_readers := [[Some 1]]\<rparr>) (Some ()) 7) = 7"
  using sortWords_direct[of "glos0\<lparr>g_readers := [[Some 1]]\<rparr>" env0 "Some ()" "- 5"]
        sortWords_direct[of "glos0\<lparr>g_readers := [[Some 1]]\<rparr>" env0 "Some ()" 0]
        sortWords_direct[of "glos0\<lparr>g_readers := [[Some 1]]\<rparr>" env0 "Some ()" 7]
  by (simp add: glos0_simp logmsg_def addlog_def)

section \<open>The streaming sort\<close>

lemma concat_runsOf: "0 < C \<Longrightarrow> concat (runsOf C xs) = xs"
  by (induction C xs rule: runsOf.induct) (subst runsOf.simps, auto)

lemma lowestHead_None: "lowestHead key runs = None \<Longrightarrow> concat runs = []"
  by (induction key runs rule: lowestHead.induct) (auto split: option.splits if_splits)

lemma lowestHead_mset:
  "lowestHead key runs = Some (x, runs') \<Longrightarrow> mset (concat runs) = add_mset x (mset (concat runs'))"
  by (induction key runs arbitrary: x runs' rule: lowestHead.induct)
     (auto split: option.splits if_splits)

lemma mset_kmerge: "mset (kmerge key runs) = mset (concat runs)"
proof (induction key runs rule: kmerge.induct)
  case (1 key runs)
  show ?case
  proof (cases "lowestHead key runs")
    case None
    then show ?thesis by (subst kmerge.simps) (simp add: lowestHead_None)
  next
    case (Some p)
    obtain x runs' where p: "p = (x, runs')" by (cases p)
    with Some 1 have "mset (kmerge key runs') = mset (concat runs')" by simp
    with Some p show ?thesis by (subst kmerge.simps) (simp add: lowestHead_mset)
  qed
qed

lemma lowestHead_sortedRuns:
  "lowestHead key runs = Some (x, runs') \<Longrightarrow> sortedRuns key runs \<Longrightarrow> sortedRuns key runs'"
  by (induction key runs arbitrary: x runs' rule: lowestHead.induct)
     (auto simp: sortedRuns_def split: option.splits if_splits)

lemma lowestHead_least:
  "lowestHead key runs = Some (x, runs') \<Longrightarrow> sortedRuns key runs \<Longrightarrow>
   y \<in> set (concat runs) \<Longrightarrow> key x \<le> key y"
proof (induction key runs arbitrary: x runs' y rule: lowestHead.induct)
  case (3 key z zs runs)
  show ?case
  proof (cases "lowestHead key runs")
    case None
    then have "concat runs = []" by (rule lowestHead_None)
    with 3 None show ?thesis by (auto simp: sortedRuns_def)
  next
    case (Some p)
    obtain w runs'' where p: "p = (w, runs'')" by (cases p)
    have sr: "sortedRuns key runs" using 3(3) by (simp add: sortedRuns_def)
    have ih: "\<And>v. v \<in> set (concat runs) \<Longrightarrow> key w \<le> key v"
      using 3(1)[OF _ sr] Some p by simp
    from 3(3) have zle: "\<And>v. v \<in> set zs \<Longrightarrow> key z \<le> key v"
      by (auto simp: sortedRuns_def)
    show ?thesis
    proof (cases "key z \<le> key w")
      case True
      with 3(2) Some p have "x = z" by simp
      with True ih zle 3(4) show ?thesis by (auto intro: order_trans)
    next
      case False
      with 3(2) Some p have "x = w" by simp
      have wz: "key w \<le> key z" using False by simp
      have "key w \<le> key v" if "v \<in> set zs" for v
        using wz zle[OF that] by (rule order_trans)
      with \<open>x = w\<close> wz ih 3(4) show ?thesis by auto
    qed
  qed
qed (auto simp: sortedRuns_def)

lemma lowestHead_filter:
  "lowestHead key runs = Some (x, runs') \<Longrightarrow> sortedRuns key runs \<Longrightarrow>
   filter (\<lambda>y. key y = k) (concat runs) =
     (if key x = k then x # filter (\<lambda>y. key y = k) (concat runs')
      else filter (\<lambda>y. key y = k) (concat runs'))"
proof (induction key runs arbitrary: x runs' rule: lowestHead.induct)
  case (3 key z zs runs)
  show ?case
  proof (cases "lowestHead key runs")
    case None
    with 3 show ?thesis by auto
  next
    case (Some p)
    obtain w runs'' where p: "p = (w, runs'')" by (cases p)
    have sr: "sortedRuns key runs" using 3(3) by (simp add: sortedRuns_def)
    from 3(3) have zle: "\<And>v. v \<in> set zs \<Longrightarrow> key z \<le> key v"
      by (auto simp: sortedRuns_def)
    show ?thesis
    proof (cases "key z \<le> key w")
      case True
      with 3(2) Some p show ?thesis by auto
    next
      case False
      with 3(2) Some p have xw: "x = w" "runs' = (z # zs) # runs''" by auto
      have ih: "filter (\<lambda>y. key y = k) (concat runs) =
        (if key w = k then w # filter (\<lambda>y. key y = k) (concat runs'')
         else filter (\<lambda>y. key y = k) (concat runs''))"
        using 3(1)[OF _ sr] Some p by blast
      have nz: "filter (\<lambda>y. key y = key w) (z # zs) = []"
      proof -
        have "key v \<noteq> key w" if "v \<in> set (z # zs)" for v
        proof -
          have "key z \<le> key v" using that zle by auto
          with False show ?thesis by auto
        qed
        then show ?thesis by (simp add: filter_empty_conv)
      qed
      show ?thesis using xw ih nz by auto
    qed
  qed
qed (auto simp: sortedRuns_def)

lemma sorted_kmerge: "sortedRuns key runs \<Longrightarrow> sorted (map key (kmerge key runs))"
proof (induction key runs rule: kmerge.induct)
  case (1 key runs)
  show ?case
  proof (cases "lowestHead key runs")
    case None
    then show ?thesis by (subst kmerge.simps) simp
  next
    case (Some p)
    obtain x runs' where p: "p = (x, runs')" by (cases p)
    have sr: "sortedRuns key runs'" using Some p 1(2) by (auto dest: lowestHead_sortedRuns)
    have ih: "sorted (map key (kmerge key runs'))" using 1(1) Some p sr by simp
    have "\<And>y. y \<in> set (kmerge key runs') \<Longrightarrow> key x \<le> key y"
    proof -
      fix y assume "y \<in> set (kmerge key runs')"
      then have "y \<in># mset (kmerge key runs')" by simp
      then have "y \<in># mset (concat runs')" by (simp only: mset_kmerge)
      then have "y \<in># mset (concat runs)" using Some p lowestHead_mset[of key runs x runs'] by simp
      then have "y \<in> set (concat runs)" by (simp only: set_mset_mset)
      with Some p 1(2) show "key x \<le> key y" using lowestHead_least[of key runs x runs' y] by simp
    qed
    with ih Some p show ?thesis by (subst kmerge.simps) auto
  qed
qed

lemma filter_kmerge:
  "sortedRuns key runs \<Longrightarrow>
   filter (\<lambda>y. key y = k) (kmerge key runs) = filter (\<lambda>y. key y = k) (concat runs)"
proof (induction key runs rule: kmerge.induct)
  case (1 key runs)
  show ?case
  proof (cases "lowestHead key runs")
    case None
    then show ?thesis by (subst kmerge.simps) (simp add: lowestHead_None)
  next
    case (Some p)
    obtain x runs' where p: "p = (x, runs')" by (cases p)
    have sr: "sortedRuns key runs'" using Some p 1(2) by (auto dest: lowestHead_sortedRuns)
    have ih: "filter (\<lambda>y. key y = k) (kmerge key runs') = filter (\<lambda>y. key y = k) (concat runs')"
      using 1(1) Some p sr by simp
    have "filter (\<lambda>y. key y = k) (concat runs) =
     (if key x = k then x # filter (\<lambda>y. key y = k) (concat runs')
      else filter (\<lambda>y. key y = k) (concat runs'))"
      using Some p 1(2) lowestHead_filter[of key runs x runs' k] by simp
    with ih Some p show ?thesis by (subst kmerge.simps) auto
  qed
qed

lemma filter_sorted_runs:
  "filter (\<lambda>y. key y = k) (concat (map (sort_key key) rs)) = filter (\<lambda>y. key y = k) (concat rs)"
  by (induction rs) (simp_all add: sort_key_stable)

lemma mset_sorted_runs: "mset (concat (map (sort_key key) rs)) = mset (concat rs)"
  by (induction rs) simp_all

lemma sortedRuns_spilledRuns: "sortedRuns key (spilledRuns streams C key)"
  by (auto simp: sortedRuns_def spilledRuns_def)

lemma filter_spilledRuns:
  "0 < C \<Longrightarrow> filter (\<lambda>y. key y = k) (concat (spilledRuns streams C key)) =
     filter (\<lambda>y. key y = k) (concat streams)"
  by (induction streams) (simp_all add: spilledRuns_def filter_sorted_runs concat_runsOf)

lemma mset_spilledRuns:
  "0 < C \<Longrightarrow> mset (concat (spilledRuns streams C key)) = mset (concat streams)"
  by (induction streams) (simp_all add: spilledRuns_def mset_sorted_runs concat_runsOf)

lemma hsortStreamList_sort_key:
  assumes "1 \<le> cacheSize"
  shows "hsortStreamList streams cacheSize key = sort_key key (concat streams)"
proof -
  let ?runs = "spilledRuns streams (nat cacheSize) key"
  have C: "0 < nat cacheSize" using assms by simp
  have h: "hsortStreamList streams cacheSize key = kmerge key ?runs"
    by (simp add: hsortStreamList_def)
  have m: "mset (kmerge key ?runs) = mset (concat streams)"
    by (simp add: mset_kmerge mset_spilledRuns[OF C])
  have s: "sorted (map key (kmerge key ?runs))"
    by (rule sorted_kmerge) (rule sortedRuns_spilledRuns)
  have f: "filter (\<lambda>x. key k = key x) (kmerge key ?runs) = filter (\<lambda>x. key k = key x) (concat streams)" for k
  proof -
    have "filter (\<lambda>x. key x = key k) (kmerge key ?runs) = filter (\<lambda>x. key x = key k) (concat streams)"
      by (simp add: filter_kmerge[OF sortedRuns_spilledRuns] filter_spilledRuns[OF C])
    moreover have "(\<lambda>x. key k = key x) = (\<lambda>x. key x = key k)" by auto
    ultimately show ?thesis by simp
  qed
  have "sort_key key (concat streams) = kmerge key ?runs"
    by (rule properties_for_sort_key) (use m s f in auto)
  with h show ?thesis by simp
qed



text \<open>
  Two streams with keys that repeat, cut into runs of three entries and into runs of
  one: the merge is the same, and entries with the same key stay in arrival order.
\<close>

lemma hsortStreamList_example:
  "hsortStreamList
     [[(3::nat, ''a''), (1, ''b''), (3, ''c''), (1, ''d'')], [(3, ''e''), (0, ''f''), (1, ''g'')]]
     3 fst
   = [(0, ''f''), (1, ''b''), (1, ''d''), (1, ''g''), (3, ''a''), (3, ''c''), (3, ''e'')]"
  "hsortStreamList
     [[(3::nat, ''a''), (1, ''b''), (3, ''c''), (1, ''d'')], [(3, ''e''), (0, ''f''), (1, ''g'')]]
     1 fst
   = [(0, ''f''), (1, ''b''), (1, ''d''), (1, ''g''), (3, ''a''), (3, ''c''), (3, ''e'')]"
  by code_simp+

lemma applyEntryFiltersGen_Nil: "applyEntryFiltersGen [] gen = List.map_filter id gen"
  unfolding applyEntryFiltersGen_def
  by (induction gen) (auto simp: List.map_filter_simps split: option.splits)

lemma map_Some_map_filter: "None \<notin> set gen \<Longrightarrow> map Some (List.map_filter id gen) = gen"
proof (induction gen)
  case Nil
  show ?case by (simp add: List.map_filter_simps)
next
  case (Cons a gen)
  then obtain y where "a = Some y" by (cases a) auto
  with Cons show ?case by (simp add: List.map_filter_simps)
qed

text \<open>
  C1. In direct mode, after \<^verbatim>\<open>sortWords\<close> with a cache size of at least one, the
  iterator is the sorted stream of the attached readers, and that stream is the stable
  sort by the key of all the readers' entries: sorted by the key, a permutation of the
  entries, the same for every cache size. The iteration yields this stream passed
  through the entry filter chain, so what it yields is the same for every cache size as
  well; with an empty chain and no falsy value among the entries it yields the sorted
  stream itself.
\<close>

theorem sortWords_stream_sorted:
  assumes "g_readers g \<noteq> []" and "1 \<le> C" and "1 \<le> C'"
  shows "g_iter (sortWords env g key C) = Some (HsortStreamList (g_readers g) C key) \<and>
    runGen env (sortWords env g key C) (HsortStreamList (g_readers g) C key)
      = sort_key (getEntrySortKey env key) (concat (g_readers g)) \<and>
    sorted (map (getEntrySortKey env key)
      (runGen env (sortWords env g key C) (HsortStreamList (g_readers g) C key))) \<and>
    mset (runGen env (sortWords env g key C) (HsortStreamList (g_readers g) C key))
      = mset (concat (g_readers g)) \<and>
    drain env (sortWords env g key C) (g_iter (sortWords env g key C))
      = applyEntryFiltersGen (g_entryFilters g)
          (runGen env (sortWords env g key C) (HsortStreamList (g_readers g) C key)) \<and>
    drain env (sortWords env g key C') (g_iter (sortWords env g key C'))
      = drain env (sortWords env g key C) (g_iter (sortWords env g key C)) \<and>
    (g_entryFilters g = [] \<and> None \<notin> set (concat (g_readers g)) \<longrightarrow>
       map Some (drain env (sortWords env g key C) (g_iter (sortWords env g key C)))
         = sort_key (getEntrySortKey env key) (concat (g_readers g)))"
proof -
  let ?k = "getEntrySortKey env key"
  let ?sorted = "sort_key ?k (concat (g_readers g))"
  have it: "g_iter (sortWords env g key D) = Some (HsortStreamList (g_readers g) D key)"
    if "1 \<le> D" for D
    using assms(1) that by (simp add: sortWords_def updateIter_def logmsg_def addlog_def)
  have fs: "g_entryFilters (sortWords env g key D) = g_entryFilters g" for D
    by (simp add: sortWords_def updateIter_def logmsg_def addlog_def Let_def)
  have run: "runGen env g' (HsortStreamList (g_readers g) D key) = ?sorted"
    if "1 \<le> D" for D g'
    using that by (simp add: hsortStreamList_sort_key)
  have dr: "drain env (sortWords env g key D) (g_iter (sortWords env g key D))
      = applyEntryFiltersGen (g_entryFilters g) ?sorted" if "1 \<le> D" for D
    unfolding it[OF that] drain_def option.case fs run[OF that] ..
  have c1: "g_iter (sortWords env g key C) = Some (HsortStreamList (g_readers g) C key)"
    by (rule it[OF assms(2)])
  have c2: "runGen env (sortWords env g key C) (HsortStreamList (g_readers g) C key) = ?sorted"
    by (rule run[OF assms(2)])
  have c3: "sorted (map ?k (runGen env (sortWords env g key C) (HsortStreamList (g_readers g) C key)))"
    unfolding c2 by simp
  have c4: "mset (runGen env (sortWords env g key C) (HsortStreamList (g_readers g) C key))
      = mset (concat (g_readers g))"
    unfolding c2 by simp
  have c5: "drain env (sortWords env g key C) (g_iter (sortWords env g key C))
      = applyEntryFiltersGen (g_entryFilters g)
          (runGen env (sortWords env g key C) (HsortStreamList (g_readers g) C key))"
    unfolding c2 by (rule dr[OF assms(2)])
  have c6: "drain env (sortWords env g key C') (g_iter (sortWords env g key C'))
      = drain env (sortWords env g key C) (g_iter (sortWords env g key C))"
    unfolding dr[OF assms(2)] dr[OF assms(3)] ..
  have c7: "g_entryFilters g = [] \<and> None \<notin> set (concat (g_readers g)) \<longrightarrow>
       map Some (drain env (sortWords env g key C) (g_iter (sortWords env g key C))) = ?sorted"
  proof
    assume h: "g_entryFilters g = [] \<and> None \<notin> set (concat (g_readers g))"
    then have "None \<notin> set ?sorted" by (simp del: set_concat)
    then have "map Some (List.map_filter id ?sorted) = ?sorted" by (rule map_Some_map_filter)
    with h show "map Some (drain env (sortWords env g key C) (g_iter (sortWords env g key C))) = ?sorted"
      unfolding dr[OF assms(2)] by (simp add: applyEntryFiltersGen_Nil)
  qed
  from c1 c2 c3 c4 c5 c6 c7 show ?thesis by blast
qed

theorem sortWords_stream_sorted_witness:
  "drain env0 (sortWords env0 (glos0\<lparr>g_readers := [[Some 3, Some 1], [Some 2]]\<rparr>) None 1)
     (g_iter (sortWords env0 (glos0\<lparr>g_readers := [[Some 3, Some 1], [Some 2]]\<rparr>) None 1))
     = [1, 2, 3] \<and>
   drain env0 (sortWords env0 (glos0\<lparr>g_readers := [[Some 3, Some 1], [Some 2]]\<rparr>) None 1000)
     (g_iter (sortWords env0 (glos0\<lparr>g_readers := [[Some 3, Some 1], [Some 2]]\<rparr>) None 1000))
     = [1, 2, 3]"
proof -
  let ?g = "glos0\<lparr>g_readers := [[Some 3, Some 1], [Some 2]]\<rparr>"
  note t = sortWords_stream_sorted[of ?g 1 1000 env0 None]
  have h: "g_readers ?g \<noteq> []" "(1::int) \<le> 1" "(1::int) \<le> 1000" by simp_all
  have e: "g_entryFilters ?g = [] \<and> None \<notin> set (concat (g_readers ?g))" by (simp add: glos0_simp)
  from t[OF h] e have a: "map Some (drain env0 (sortWords env0 ?g None 1) (g_iter (sortWords env0 ?g None 1)))
     = sort_key (getEntrySortKey env0 None) (concat (g_readers ?g))" by blast
  from t[OF h] have b: "drain env0 (sortWords env0 ?g None 1000) (g_iter (sortWords env0 ?g None 1000))
     = drain env0 (sortWords env0 ?g None 1) (g_iter (sortWords env0 ?g None 1))" by blast
  have c: "sort_key (getEntrySortKey env0 None) (concat (g_readers ?g)) = map Some [1, 2, 3]"
    by (simp add: env0_def)
  have "map Some (drain env0 (sortWords env0 ?g None 1) (g_iter (sortWords env0 ?g None 1))) = map Some [1, 2, 3]"
    unfolding a c ..
  then have "drain env0 (sortWords env0 ?g None 1) (g_iter (sortWords env0 ?g None 1)) = [1, 2, 3]"
    by (simp only: map_eq_conv inj_map_eq_map[OF inj_Some])
  with b show ?thesis by simp
qed

text \<open>
  What the iteration yields is not always a permutation of the readers' entries: the
  filter chain runs on the sorted stream, and here it drops the entry \<open>0\<close>.
\<close>

theorem sorted_iteration_counterexample:
  "drain env0 (sortWords env0 glos1 None 1) (g_iter (sortWords env0 glos1 None 1)) = [1, 2] \<and>
   mset (map Some (drain env0 (sortWords env0 glos1 None 1) (g_iter (sortWords env0 glos1 None 1))))
     \<noteq> mset (concat (g_readers glos1))"
proof -
  have r: "g_readers glos1 = [[Some 2, Some 0, Some 1]]" by (simp add: glos1_def)
  have f: "g_entryFilters glos1 = [Some, \<lambda>e. if e = 0 then None else Some e, Some, Some, Some, Some,
     \<lambda>e. if e = 0 then None else Some e, Some]"
    by (simp add: glos1_def updateEntryFilters_def pref_get_def ui_getPref_def glos0_simp env0_def ef0_def)
  have i: "g_iter (sortWords env0 glos1 None 1) = Some (HsortStreamList [[Some 2, Some 0, Some 1]] 1 None)"
    by (simp add: sortWords_def updateIter_def r logmsg_def addlog_def)
  have e: "g_entryFilters (sortWords env0 glos1 None 1) = g_entryFilters glos1"
    by (simp add: sortWords_def updateIter_def logmsg_def addlog_def Let_def)
  have h: "hsortStreamList [[Some 2, Some 0, Some 1]] 1 (getEntrySortKey env0 None)
      = [Some 0, Some 1, Some 2]"
    by (simp add: hsortStreamList_sort_key env0_def)
  have d: "drain env0 (sortWords env0 glos1 None 1) (g_iter (sortWords env0 glos1 None 1)) = [1, 2]"
    unfolding i drain_def option.case e f runGen.simps h
    by (simp add: applyEntryFiltersGen_def List.map_filter_simps)
  show ?thesis unfolding d r by simp
qed

section \<open>Writing\<close>










text \<open>
  With the constructor's default \<^verbatim>\<open>ui=Any\<close> and a reader that has a length, the drain
  that \<^verbatim>\<open>ALWAYS\<close> asks for raises at \<^verbatim>\<open>progressInit\<close>, before anything is read: such a
  call does not get as far as the plugin's write function.
\<close>

lemma write_setup_default_ui:
  "\<exists>g'. write_setup env0 reg_ab (glos2\<lparr>g_ui := Some ui_Any\<rparr>) ''out.a'' ''A'' None None 1000 []
          = Inl (Raise AttributeError, g', reg_ab) \<and>
        g_readers g' = [[Some 3, None, Some 1]] \<and> g_data g' = [2] \<and> g_closed g' = []"
  by (simp add: write_setup_def loadPluginByFormat_def reg_ab_def env0_def checkOptions_def
        write_sortOnWrite_def plugin_a_def Let_def inactivateDirectMode_def loadReader_def
        readerWordCount_def progressOn_def progressCall_def ui_Any_def glos2_simp logmsg_def
        addlog_def)




lemma clear_fields:
  "g_info (clear gw) = [] \<and> g_data (clear gw) = [] \<and> g_readers (clear gw) = [] \<and>
   g_iter (clear gw) = None \<and> g_closed (clear gw) = g_closed gw @ g_readers gw"
  by (simp add: clear_def)

text \<open>
  C4. A call of \<^verbatim>\<open>write\<close> that gets as far as the plugin's write function ends with the
  glossary cleared, whether the write function returned or raised (or was not there):
  \<^verbatim>\<open>clear\<close> runs on the glossary as the write function left it, so the entry list and
  the metadata are empty, no reader is attached, every reader that was attached has been
  closed and the iterator is unset. The call returns the absolute path when the write
  function returned, and \<^verbatim>\<open>None\<close> when the write function raised an exception that
  \<^verbatim>\<open>except Exception\<close> catches (or was not there); it raises, after the clearing, what
  the write function raised when that is a \<^verbatim>\<open>KeyboardInterrupt\<close> or a \<^verbatim>\<open>SystemExit\<close>.
\<close>

theorem write_clears_state:
  assumes "write_setup env reg g filename format dosort sortKey sortCacheSize options
             = Inr (g1, reg1, filename1, options1, dosort1)"
  shows "\<exists>r gw.
     Glossary_write env reg g filename format dosort sortKey sortCacheSize options
       = (r, clear gw, reg1) \<and>
     (case map_of (writeFunctions reg1) format of
        None \<Rightarrow>
          r = Return None \<and>
          gw = logmsg EXCEPTION ''Exception while calling plugin's write function''
                 (logmsg INFO ''Writing to file %s'' g1)
      | Some writeFunction \<Rightarrow>
          (case writeFunction (logmsg INFO ''Writing to file %s'' g1) (abspath env filename1)
                  options1 of
             (Raise e, g2) \<Rightarrow>
               if isException e then
                 r = Return None \<and>
                 gw = logmsg EXCEPTION ''Exception while calling plugin's write function'' g2
               else r = Raise e \<and> gw = g2
           | (Return u, g2) \<Rightarrow> r = Return (Some (abspath env filename1)) \<and> gw = g2)) \<and>
     g_info (clear gw) = [] \<and> g_data (clear gw) = [] \<and> g_readers (clear gw) = [] \<and>
     g_iter (clear gw) = None \<and> g_closed (clear gw) = g_closed gw @ g_readers gw"
  using assms
  by (auto simp: Glossary_write_def write_call_def Let_def clear_fields
           split: option.splits prod.splits result.splits)

theorem write_clears_state_witness:
  "\<exists>gw. Glossary_write env0 reg_ab glos2 ''out.b'' ''B'' None None 1000 []
          = (Return None, clear gw, reg_ab) \<and>
        g_readers gw = [[Some 3, None, Some 1]] \<and> g_data gw = [2] \<and>
        g_iter gw = Some ReadersEntryGen \<and>
        g_data (clear gw) = [] \<and> g_readers (clear gw) = [] \<and> g_iter (clear gw) = None \<and>
        g_closed (clear gw) = [[Some 3, None, Some 1]]"
proof -
  have "\<exists>g1. write_setup env0 reg_ab glos2 ''out.b'' ''B'' None None 1000 []
          = Inr (g1, reg_ab, ''out.b'', [], Some False) \<and>
          g_readers g1 = [[Some 3, None, Some 1]] \<and> g_data g1 = [2] \<and> g_closed g1 = [] \<and>
          g_iter g1 = Some ReadersEntryGen"
    by (simp add: write_setup_def loadPluginByFormat_def reg_ab_def env0_def checkOptions_def
          write_sortOnWrite_def plugin_b_def Let_def write_sort_def updateIter_def glos2_simp
          addlog_def)
  then obtain g1 where w: "write_setup env0 reg_ab glos2 ''out.b'' ''B'' None None 1000 []
          = Inr (g1, reg_ab, ''out.b'', [], Some False)"
     and f: "g_readers g1 = [[Some 3, None, Some 1]]" "g_data g1 = [2]" "g_closed g1 = []"
       "g_iter g1 = Some ReadersEntryGen"
    by blast
  from write_clears_state[OF w] obtain r gw where
    e: "Glossary_write env0 reg_ab glos2 ''out.b'' ''B'' None None 1000 [] = (r, clear gw, reg_ab)"
    and c: "(case map_of (writeFunctions reg_ab) ''B'' of
        None \<Rightarrow>
          r = Return None \<and>
          gw = logmsg EXCEPTION ''Exception while calling plugin's write function''
                 (logmsg INFO ''Writing to file %s'' g1)
      | Some writeFunction \<Rightarrow>
          (case writeFunction (logmsg INFO ''Writing to file %s'' g1) (abspath env0 ''out.b'') [] of
             (Raise e, g2) \<Rightarrow>
               if isException e then
                 r = Return None \<and>
                 gw = logmsg EXCEPTION ''Exception while calling plugin's write function'' g2
               else r = Raise e \<and> gw = g2
           | (Return u, g2) \<Rightarrow> r = Return (Some (abspath env0 ''out.b'')) \<and> gw = g2))"
    and k: "g_data (clear gw) = [] \<and> g_readers (clear gw) = [] \<and>
     g_iter (clear gw) = None \<and> g_closed (clear gw) = g_closed gw @ g_readers gw"
    by blast
  from c have r: "r = Return None"
    and gw: "gw = logmsg EXCEPTION ''Exception while calling plugin's write function''
                    (logmsg INFO ''Writing to file %s'' g1)"
    by (simp_all add: reg_ab_def isException_def)
  have "g_readers gw = [[Some 3, None, Some 1]] \<and> g_data gw = [2] \<and>
        g_iter gw = Some ReadersEntryGen \<and> g_closed gw = []"
    using f by (simp add: gw logmsg_def addlog_def)
  with e r k show ?thesis by auto
qed

text \<open>
  The format \<open>K\<close> is loaded and has write support, so the call gets as far as the write
  function; the write function raises \<^verbatim>\<open>KeyboardInterrupt\<close>, which \<^verbatim>\<open>except Exception\<close>
  does not catch: \<^verbatim>\<open>write\<close> clears the glossary and raises, it returns no result.
\<close>

theorem write_returns_counterexample:
  "(\<exists>g1. write_setup env0 reg_k glos2 ''out.k'' ''K'' None None 1000 []
           = Inr (g1, reg_k, ''out.k'', [], Some False)) \<and>
   fst (Glossary_write env0 reg_k glos2 ''out.k'' ''K'' None None 1000 [])
     = Raise KeyboardInterrupt \<and>
   g_data (fst (snd (Glossary_write env0 reg_k glos2 ''out.k'' ''K'' None None 1000 []))) = [] \<and>
   g_readers (fst (snd (Glossary_write env0 reg_k glos2 ''out.k'' ''K'' None None 1000 []))) = [] \<and>
   g_iter (fst (snd (Glossary_write env0 reg_k glos2 ''out.k'' ''K'' None None 1000 []))) = None"
proof -
  have w: "\<exists>g1. write_setup env0 reg_k glos2 ''out.k'' ''K'' None None 1000 []
           = Inr (g1, reg_k, ''out.k'', [], Some False)"
    by (simp add: write_setup_def loadPluginByFormat_def reg_k_def env0_def checkOptions_def
          write_sortOnWrite_def plugin_k_def Let_def)
  have r: "fst (Glossary_write env0 reg_k glos2 ''out.k'' ''K'' None None 1000 [])
     = Raise KeyboardInterrupt"
    by (simp add: Glossary_write_def write_setup_def loadPluginByFormat_def reg_k_def env0_def
          checkOptions_def write_sortOnWrite_def plugin_k_def Let_def write_call_def
          isException_def)
  have c: "g_data (fst (snd (Glossary_write env0 reg_k glos2 ''out.k'' ''K'' None None 1000 []))) = [] \<and>
   g_readers (fst (snd (Glossary_write env0 reg_k glos2 ''out.k'' ''K'' None None 1000 []))) = [] \<and>
   g_iter (fst (snd (Glossary_write env0 reg_k glos2 ''out.k'' ''K'' None None 1000 []))) = None"
    by (simp add: Glossary_write_def write_setup_def loadPluginByFormat_def reg_k_def env0_def
          checkOptions_def write_sortOnWrite_def plugin_k_def Let_def write_call_def
          isException_def clear_def)
  from w r c show ?thesis by simp
qed

text \<open>
  C6. \<^verbatim>\<open>write\<close> does raise past its boundary: for a format that is neither a loaded
  plugin nor a key of \<^verbatim>\<open>formatsFilename\<close>, \<^verbatim>\<open>loadPluginByFormat\<close> raises \<^verbatim>\<open>KeyError\<close>
  before \<^verbatim>\<open>write\<close> reaches the \<^verbatim>\<open>try\<close> that was to return \<^verbatim>\<open>None\<close> for a format without
  write support.
\<close>

theorem write_unknown_format_raises:
  "map_of (plugins reg) format = None \<Longrightarrow> map_of (formatsFilename reg) format = None \<Longrightarrow>
   Glossary_write env reg g filename format dosort sortKey sortCacheSize options
     = (Raise KeyError, g, reg)"
  by (simp add: Glossary_write_def write_setup_def loadPluginByFormat_def addlog_def)

theorem write_unknown_format_raises_witness:
  "Glossary_write env0 reg_ab glos2 ''out.xyz'' ''NoSuchFormat'' None None 1000 []
     = (Raise KeyError, glos2, reg_ab)"
  using write_unknown_format_raises[of reg_ab "''NoSuchFormat''" env0 glos2 "''out.xyz''" None None 1000 "[]"]
  by (simp add: reg_ab_def)

section \<open>Detecting the output format\<close>

lemma find_Some_set: "find P xs = Some x \<Longrightarrow> x \<in> set xs"
  by (induction xs) (auto split: if_splits)

lemma detectOutput_byFormat_find:
  "list_all (\<lambda>item. fst item \<noteq> []) items \<Longrightarrow>
   detectOutput_byFormat items [] = (case find shortExt items of Some item \<Rightarrow> fst item | None \<Rightarrow> [])"
proof (induction items)
  case Nil
  show ?case by simp
next
  case (Cons item items)
  obtain fmt extList where item: "item = (fmt, extList)" by (cases item)
  from Cons.prems item have n: "fmt \<noteq> []" and w: "list_all (\<lambda>item. fst item \<noteq> []) items"
    by simp_all
  from Cons.IH[OF w] item n show ?case by (simp add: shortExt_def)
qed

lemma detectOutput_byName_find:
  "list_all (\<lambda>item. fst item \<noteq> []) items \<Longrightarrow>
   detectOutput_byName selfFilename items [] filename =
     (case find (namesFormat filename) items of
        None \<Rightarrow> Return ([], filename)
      | Some item \<Rightarrow>
          (case namedExt filename item of
             None \<Rightarrow> Raise IndexError
           | Some ext \<Rightarrow> Return (fst item, selfFilename @ ext)))"
proof (induction items)
  case Nil
  show ?case by simp
next
  case (Cons item items)
  obtain fmt extList where item: "item = (fmt, extList)" by (cases item)
  from Cons.prems item have n: "fmt \<noteq> []" and w: "list_all (\<lambda>item. fst item \<noteq> []) items"
    by simp_all
  note ih = Cons.IH[OF w]
  show ?case
  proof (cases "filename = fmt")
    case True
    then show ?thesis unfolding item
      by (cases extList) (simp_all add: namesFormat_def namedExt_def)
  next
    case False
    show ?thesis
    proof (cases "find (\<lambda>e. filename = drop 1 e \<or> filename = e) extList")
      case None
      then have "\<not> list_ex (\<lambda>e. filename = drop 1 e \<or> filename = e) extList"
        by (simp add: find_None_iff list_ex_iff)
      with False None ih show ?thesis unfolding item
        by (simp add: namesFormat_def)
    next
      case (Some e)
      then have "e \<in> set extList \<and> (filename = drop 1 e \<or> filename = e)"
        by (auto simp: find_Some_iff)
      then have "list_ex (\<lambda>e. filename = drop 1 e \<or> filename = e) extList"
        by (auto simp: list_ex_iff)
      with False Some n show ?thesis unfolding item
        by (simp add: namesFormat_def namedExt_def)
    qed
  qed
qed

lemma find_snoc:
  "find P (xs @ [x]) = (case find P xs of Some y \<Rightarrow> Some y | None \<Rightarrow> if P x then Some x else None)"
  by (induction xs) auto

lemma formatByExt_last:
  "formatByExt items ext format =
     (case find (listsExt ext) (rev items) of Some item \<Rightarrow> fst item | None \<Rightarrow> format)"
proof (induction items arbitrary: format)
  case Nil
  show ?case by simp
next
  case (Cons item items)
  obtain key extList where item: "item = (key, extList)" by (cases item)
  show ?case
    unfolding item formatByExt.simps Cons.IH rev.simps find_snoc
    by (simp add: listsExt_def split: option.splits)
qed

lemma find_names_nonempty:
  assumes "list_all (\<lambda>item. fst item \<noteq> []) items" and "find P items = Some item"
  shows "fst item \<noteq> []"
proof -
  from assms(2) have "item \<in> set items" by (rule find_Some_set)
  with assms(1) show ?thesis by (simp add: list_all_iff)
qed

lemma find_rev_names_nonempty:
  assumes "list_all (\<lambda>item. fst item \<noteq> []) items" and "find P (rev items) = Some item"
  shows "fst item \<noteq> []"
proof -
  from assms(2) have "item \<in> set (rev items)" by (rule find_Some_set)
  with assms(1) show ?thesis by (simp add: list_all_iff)
qed

lemma detectOutput_noname:
  "detectOutput reg g [] format0 =
     (if g_filename g = [] then (Return None, logmsg ERROR ''Invalid filename %r'' g)
      else if format0 = []
      then (Return None, logmsg ERROR ''No filename nor format is given for output file'' g)
      else
        (case map_of (formatsExt reg) format0 of
           None \<Rightarrow> (Return None, logmsg ERROR ''Invalid write format'' g)
         | Some [] \<Rightarrow> (Raise IndexError, g)
         | Some (ext # exts) \<Rightarrow> (Return (Some (g_filename g @ ext, format0, [])), g)))"
  by (simp add: detectOutput_def)

lemma detectOutput_explicit:
  "filename0 \<noteq> [] \<Longrightarrow> format0 \<noteq> [] \<Longrightarrow>
   detectOutput reg g filename0 format0 =
     (case stripArchive filename0 of (filename, archiveType, fext) \<Rightarrow>
        (Return (Some (filename, format0, archiveType)), g))"
  by (simp add: detectOutput_def stripArchive_def Let_def split: prod.splits)

lemma detectOutput_detect:
  assumes "filename0 \<noteq> []"
    and s: "stripArchive filename0 = (filename, archiveType, fext)"
  shows "detectOutput reg g filename0 [] =
     (let format1 = detectOutput_byFormat (formatsExt reg) []
      in case (if format1 = []
               then detectOutput_byName (g_filename g) (formatsExt reg) format1 filename
               else Return (format1, filename)) of
        Raise e \<Rightarrow> (Raise e, g)
      | Return (format2, filename2) \<Rightarrow>
          (let format3 = (if format2 = [] then formatByExt (formatsExt reg) fext format2
                          else format2)
           in if format3 = []
              then (Return None, logmsg ERROR ''Unable to detect write format!'' g)
              else (Return (Some (filename2, format3, archiveType)), g)))"
proof -
  obtain filenameNoExt fext0 where sp: "splitext filename0 = (filenameNoExt, fext0)"
    by (cases "splitext filename0")
  show ?thesis
  proof (cases "lower fext0 = ''.gz'' \<or> lower fext0 = ''.bz2'' \<or> lower fext0 = ''.zip''")
    case True
    with s sp have e: "filename = filenameNoExt" "archiveType = drop 1 (lower fext0)"
      "fext = get_ext filenameNoExt"
      by (auto simp: stripArchive_def)
    show ?thesis
      unfolding detectOutput_def sp prod.case Let_def e using True assms(1) by simp
  next
    case False
    with s sp have e: "filename = filename0" "archiveType = []" "fext = lower fext0"
      by (auto simp: stripArchive_def)
    show ?thesis
      unfolding detectOutput_def sp prod.case Let_def e using False assms(1) by simp
  qed
qed

lemma detectOutput_resolved:
  assumes "outputFilename = [] \<or> outputFormat \<noteq> [] \<or>
           list_all (\<lambda>item. fst item \<noteq> []) (formatsExt reg)"
  shows "detectOutput reg g outputFilename outputFormat =
     (case resolvedOutput (formatsExt reg) (g_filename g) outputFilename outputFormat of
        Return None \<Rightarrow>
          (Return None,
           logmsg ERROR
             (if outputFilename \<noteq> [] then ''Unable to detect write format!''
              else if g_filename g = [] then ''Invalid filename %r''
              else if outputFormat = [] then ''No filename nor format is given for output file''
              else ''Invalid write format'') g)
      | r \<Rightarrow> (r, g))"
proof (cases "outputFilename = []")
  case True
  show ?thesis unfolding True detectOutput_noname
    by (simp add: resolvedOutput_def split: option.splits list.splits)
next
  case nf: False
  obtain filename archiveType fext where s: "stripArchive outputFilename = (filename, archiveType, fext)"
    by (cases "stripArchive outputFilename")
  show ?thesis
  proof (cases "outputFormat = []")
    case False
    with nf s show ?thesis
      by (simp add: detectOutput_explicit resolvedOutput_def)
  next
    case True
    with nf assms have w: "list_all (\<lambda>item. fst item \<noteq> []) (formatsExt reg)" by simp
    note d = detectOutput_detect[OF nf s, of reg g]
    note f1 = detectOutput_byFormat_find[OF w]
    note f2 = detectOutput_byName_find[OF w, of "g_filename g" filename]
    show ?thesis
    proof (cases "find shortExt (formatsExt reg)")
      case (Some item)
      from find_names_nonempty[OF w Some] have "fst item \<noteq> []" .
      with Some nf s show ?thesis unfolding True d f1
        by (simp add: resolvedOutput_def)
    next
      case n1: None
      show ?thesis
      proof (cases "find (namesFormat filename) (formatsExt reg)")
        case (Some item)
        from find_names_nonempty[OF w Some] have ne: "fst item \<noteq> []" .
        show ?thesis
        proof (cases "namedExt filename item")
          case None
          with Some n1 nf s show ?thesis unfolding True d f1
            by (simp add: resolvedOutput_def f2)
        next
          case e: (Some ext)
          with Some n1 nf s ne show ?thesis unfolding True d f1
            by (simp add: resolvedOutput_def f2)
        qed
      next
        case n2: None
        show ?thesis
        proof (cases "find (listsExt fext) (rev (formatsExt reg))")
          case (Some item)
          from find_rev_names_nonempty[OF w Some] have ne: "fst item \<noteq> []" .
          with Some n1 n2 nf s show ?thesis unfolding True d f1
            by (simp add: resolvedOutput_def f2 formatByExt_last)
        next
          case n3: None
          with n1 n2 nf s show ?thesis unfolding True d f1
            by (simp add: resolvedOutput_def f2 formatByExt_last)
        qed
      qed
    qed
  qed
qed


text \<open>
  C9. \<^verbatim>\<open>_detectOutput\<close> resolves the output as \<open>resolvedOutput\<close> says. With an output
  file name: an explicit format wins, whether registered or not; otherwise, in a
  registry whose formats all have a name, the first entry with an extension of at most
  one character wins; otherwise the file name, without a trailing archive suffix,
  selects the first entry of which it is the format name or an extension (with or
  without its dot), which raises \<^verbatim>\<open>IndexError\<close> when that entry has no extension;
  otherwise its extension selects the last entry that lists it. With no output file
  name, which is the default of \<^verbatim>\<open>convert\<close>, the result is \<^verbatim>\<open>None\<close> unless the glossary has
  a file name of its own and the format is given and registered. When the result is
  \<^verbatim>\<open>None\<close>, \<^verbatim>\<open>convert\<close> returns \<^verbatim>\<open>None\<close> at once: the registry is as it was and so is
  the glossary, but for the two errors logged. When \<^verbatim>\<open>_detectOutput\<close> raises, so does
  \<^verbatim>\<open>convert\<close>, with nothing changed.
\<close>

theorem detectOutput_precedence:
  assumes "outputFilename = [] \<or> outputFormat \<noteq> [] \<or>
           list_all (\<lambda>item. fst item \<noteq> []) (formatsExt reg)"
  shows "fst (detectOutput reg g outputFilename outputFormat) =
       resolvedOutput (formatsExt reg) (g_filename g) outputFilename outputFormat \<and>
     (case resolvedOutput (formatsExt reg) (g_filename g) outputFilename outputFormat of
        Return None \<Rightarrow>
          (let msg =
                 (if outputFilename \<noteq> [] then ''Unable to detect write format!''
                  else if g_filename g = [] then ''Invalid filename %r''
                  else if outputFormat = []
                  then ''No filename nor format is given for output file''
                  else ''Invalid write format'')
           in detectOutput reg g outputFilename outputFormat =
                (Return None, logmsg ERROR msg g) \<and>
              convert env reg g inputFilename inputFormat direct progressbar outputFilename
                outputFormat dosort sortKey sortCacheSize readOptions writeOptions =
                (Return None,
                 logmsg ERROR ''Writing file %s failed.'' (logmsg ERROR msg g), reg))
      | Return (Some out) \<Rightarrow> snd (detectOutput reg g outputFilename outputFormat) = g
      | Raise e \<Rightarrow>
          convert env reg g inputFilename inputFormat direct progressbar outputFilename
            outputFormat dosort sortKey sortCacheSize readOptions writeOptions =
            (Raise e, g, reg))"
proof -
  note d = detectOutput_resolved[OF assms, of g]
  show ?thesis
  proof (cases "resolvedOutput (formatsExt reg) (g_filename g) outputFilename outputFormat")
    case (Raise e)
    with d show ?thesis by (simp add: convert_def)
  next
    case (Return r)
    show ?thesis
    proof (cases r)
      case None
      with Return d show ?thesis by (simp add: convert_def Let_def)
    next
      case (Some out)
      with Return d show ?thesis by simp
    qed
  qed
qed

theorem detectOutput_precedence_witness:
  "fst (detectOutput reg_ab glos0 ''out.b.gz'' []) = Return (Some (''out.b'', ''B'', ''gz'')) \<and>
   fst (detectOutput reg_ab glos0 ''b'' []) = Return (Some (''.b'', ''B'', [])) \<and>
   fst (detectOutput reg_ab glos0 ''out.b'' ''Unregistered'')
     = Return (Some (''out.b'', ''Unregistered'', [])) \<and>
   fst (detectOutput reg_ab (glos0\<lparr>g_filename := ''dict''\<rparr>) [] ''A'')
     = Return (Some (''dict.a'', ''A'', [])) \<and>
   convert env0 reg_ab glos0 ''in.a'' [] None True ''out.unknownext'' [] None None 1000 [] [] =
     (Return None,
      logmsg ERROR ''Writing file %s failed.''
        (logmsg ERROR ''Unable to detect write format!'' glos0),
      reg_ab)"
proof -
  have wf: "list_all (\<lambda>item. fst item \<noteq> []) (formatsExt reg_ab)" by (simp add: reg_ab_def)
  have f0: "g_filename glos0 = []" by (simp add: glos0_simp)
  have r1: "resolvedOutput (formatsExt reg_ab) [] ''out.b.gz'' []
              = Return (Some (''out.b'', ''B'', ''gz''))" by code_simp
  have r2: "resolvedOutput (formatsExt reg_ab) [] ''b'' [] = Return (Some (''.b'', ''B'', []))"
    by code_simp
  have r3: "resolvedOutput (formatsExt reg_ab) [] ''out.b'' ''Unregistered''
              = Return (Some (''out.b'', ''Unregistered'', []))" by code_simp
  have r4: "resolvedOutput (formatsExt reg_ab) ''dict'' [] ''A''
              = Return (Some (''dict.a'', ''A'', []))" by code_simp
  have r5: "resolvedOutput (formatsExt reg_ab) [] ''out.unknownext'' [] = Return None"
    by code_simp
  from detectOutput_precedence[where outputFilename = "''out.b.gz''" and outputFormat = "[]"
      and reg = reg_ab and g = glos0 and env = env0] wf r1 f0
  have a: "fst (detectOutput reg_ab glos0 ''out.b.gz'' []) = Return (Some (''out.b'', ''B'', ''gz''))"
    by simp
  from detectOutput_precedence[where outputFilename = "''b''" and outputFormat = "[]"
      and reg = reg_ab and g = glos0 and env = env0] wf r2 f0
  have b: "fst (detectOutput reg_ab glos0 ''b'' []) = Return (Some (''.b'', ''B'', []))"
    by simp
  from detectOutput_precedence[where outputFilename = "''out.b''" and outputFormat = "''Unregistered''"
      and reg = reg_ab and g = glos0 and env = env0] r3 f0
  have c: "fst (detectOutput reg_ab glos0 ''out.b'' ''Unregistered'')
     = Return (Some (''out.b'', ''Unregistered'', []))"
    by simp
  from detectOutput_precedence[where outputFilename = "[]" and outputFormat = "''A''"
      and reg = reg_ab and g = "glos0\<lparr>g_filename := ''dict''\<rparr>" and env = env0] r4
  have d: "fst (detectOutput reg_ab (glos0\<lparr>g_filename := ''dict''\<rparr>) [] ''A'')
     = Return (Some (''dict.a'', ''A'', []))"
    by simp
  from detectOutput_precedence[where outputFilename = "''out.unknownext''" and outputFormat = "[]"
      and reg = reg_ab and g = glos0 and env = env0
      and inputFilename = "''in.a''" and inputFormat = "[]" and direct = None
      and progressbar = True and dosort = None and sortKey = None and sortCacheSize = 1000
      and readOptions = "[]" and writeOptions = "[]"] wf r5 f0
  have e: "convert env0 reg_ab glos0 ''in.a'' [] None True ''out.unknownext'' [] None None 1000 [] [] =
     (Return None,
      logmsg ERROR ''Writing file %s failed.''
        (logmsg ERROR ''Unable to detect write format!'' glos0),
      reg_ab)"
    by (simp add: Let_def)
  from a b c d e show ?thesis by blast
qed

text \<open>
  Where the order of the specification fails. The file name \<^verbatim>\<open>a.b\<close> has the extension of
  format \<open>B\<close> and is resolved to format \<open>A\<close>, of which it is an extension without the
  dot: the file name comes before the extension. On a glossary that has read nothing, with
  no output file name, the explicit and registered format \<open>A\<close> does not win: the result
  is \<^verbatim>\<open>None\<close>, and so is that of \<^verbatim>\<open>convert\<close>. A format \<open>X\<close> with the extension
  \<^verbatim>\<open>.\<close> takes \<^verbatim>\<open>out.b\<close> from the format \<open>B\<close> that lists \<^verbatim>\<open>.b\<close>. The file name \<^verbatim>\<open>A\<close> is the
  name of a format without extensions: \<^verbatim>\<open>_detectOutput\<close> raises. The extension \<^verbatim>\<open>.q\<close>
  is listed by a format whose name is empty: the result is \<^verbatim>\<open>None\<close>.
\<close>

theorem detectOutput_precedence_counterexample:
  "claimedFormat (formatsExt reg_dots) ''a.b'' [] = Some ''B'' \<and>
   fst (detectOutput reg_dots glos0 ''a.b'' []) = Return (Some (''.a.b'', ''A'', [])) \<and>
   claimedFormat (formatsExt reg_ab) [] ''A'' = Some ''A'' \<and>
   fst (detectOutput reg_ab glos0 [] ''A'') = Return None \<and>
   fst (convert env0 reg_ab glos0 ''in.a'' [] None True [] ''A'' None None 1000 [] [])
     = Return None \<and>
   claimedFormat [(''X'', [''.'']), (''B'', [''.b''])] ''out.b'' [] = Some ''B'' \<and>
   fst (detectOutput (reg0\<lparr>formatsExt := [(''X'', [''.'']), (''B'', [''.b''])]\<rparr>) glos0 ''out.b'' [])
     = Return (Some (''out.b'', ''X'', [])) \<and>
   claimedFormat [(''A'', [])] ''A'' [] = Some ''A'' \<and>
   fst (detectOutput (reg0\<lparr>formatsExt := [(''A'', [])]\<rparr>) glos0 ''A'' []) = Raise IndexError \<and>
   claimedFormat [([], [''.q''])] ''out.q'' [] = Some [] \<and>
   fst (detectOutput (reg0\<lparr>formatsExt := [([], [''.q''])]\<rparr>) glos0 ''out.q'' []) = Return None"
proof -
  have a: "claimedFormat (formatsExt reg_dots) ''a.b'' [] = Some ''B''" by code_simp
  have b: "fst (detectOutput reg_dots glos0 ''a.b'' []) = Return (Some (''.a.b'', ''A'', []))"
    by code_simp
  have c: "claimedFormat (formatsExt reg_ab) [] ''A'' = Some ''A''" by code_simp
  have d: "fst (detectOutput reg_ab glos0 [] ''A'') = Return None"
    by (simp add: detectOutput_def glos0_simp)
  have e: "fst (convert env0 reg_ab glos0 ''in.a'' [] None True [] ''A'' None None 1000 [] [])
     = Return None"
    by (simp add: convert_def detectOutput_def glos0_simp)
  have f: "claimedFormat [(''X'', [''.'']), (''B'', [''.b''])] ''out.b'' [] = Some ''B''"
    by code_simp
  have g: "fst (detectOutput (reg0\<lparr>formatsExt := [(''X'', [''.'']), (''B'', [''.b''])]\<rparr>) glos0 ''out.b'' [])
     = Return (Some (''out.b'', ''X'', []))"
    by code_simp
  have h: "claimedFormat [(''A'', [])] ''A'' [] = Some ''A''" by code_simp
  have i: "fst (detectOutput (reg0\<lparr>formatsExt := [(''A'', [])]\<rparr>) glos0 ''A'' []) = Raise IndexError"
    by code_simp
  have j: "claimedFormat [([], [''.q''])] ''out.q'' [] = Some []" by code_simp
  have k: "fst (detectOutput (reg0\<lparr>formatsExt := [([], [''.q''])]\<rparr>) glos0 ''out.q'' []) = Return None"
    by code_simp
  from a b c d e f g h i j k show ?thesis by simp
qed

section \<open>Metadata aliases\<close>

lemma g_info_setInfo:
  "g_info (setInfo env g key v) =
     AList.update (aliasKey (fixUtf8 env key)) (fixUtf8 env v) (g_info g)"
  by (simp add: setInfo_def Let_def logmsg_def addlog_def)

lemma aliasKey_examples:
  "aliasKey ''Title'' = ''name''" "aliasKey ''dbname'' = ''name''"
  "aliasKey ''bookname'' = ''name''" "aliasKey ''name'' = ''name''"
  "aliasKey ''NAME'' = ''NAME''"
  by code_simp+

text \<open>
  C7. The alias table is applied on write and on read, to the key lowercased; a key
  whose lowercased form is not in the table is used as it is written, not lowercased
  (\<open>aliasKey\<close>). \<^verbatim>\<open>setInfo\<close> stores the value, as \<^verbatim>\<open>fixUtf8\<close> returns it, under the
  \<open>aliasKey\<close> of the key, as \<^verbatim>\<open>fixUtf8\<close> returns it, and changes no other key;
  \<^verbatim>\<open>getInfo\<close> of a key with the same \<open>aliasKey\<close> returns the value stored, and
  \<^verbatim>\<open>getInfo\<close> of any other key returns what it returned before.
\<close>

theorem setInfo_getInfo_alias:
  "g_info (setInfo env g a1 v) =
     AList.update (aliasKey (fixUtf8 env a1)) (fixUtf8 env v) (g_info g) \<and>
   (aliasKey a2 = aliasKey (fixUtf8 env a1) \<longrightarrow>
      getInfo (setInfo env g a1 v) a2 = fixUtf8 env v) \<and>
   (aliasKey a2 \<noteq> aliasKey (fixUtf8 env a1) \<longrightarrow>
      getInfo (setInfo env g a1 v) a2 = getInfo g a2)"
  by (simp add: g_info_setInfo getInfo_def update_conv')

theorem setInfo_getInfo_alias_witness:
  "aliasKey ''Title'' = ''name'' \<and> aliasKey ''dbname'' = ''name'' \<and>
   aliasKey ''NAME'' = ''NAME'' \<and>
   g_info (setInfo env0 glos0 ''Title'' ''Webster'') = [(''name'', ''Webster'')] \<and>
   getInfo (setInfo env0 glos0 ''Title'' ''Webster'') ''dbname'' = ''Webster'' \<and>
   getInfo (setInfo env0 glos0 ''Title'' ''Webster'') ''NAME'' = []"
  using setInfo_getInfo_alias[of env0 glos0 "''Title''" "''Webster''" "''dbname''"]
        setInfo_getInfo_alias[of env0 glos0 "''Title''" "''Webster''" "''NAME''"]
  by (simp add: aliasKey_examples env0_def glos0_simp getInfo_def)

text \<open>
  The key \<^verbatim>\<open>NAME\<close> lowercased is \<^verbatim>\<open>name\<close>, which the table does not have: the value
  is stored under \<^verbatim>\<open>NAME\<close>, as written, and \<^verbatim>\<open>getInfo("name")\<close> does not find it.
\<close>

theorem setInfo_lowercased_key_counterexample:
  "lower ''NAME'' = ''name'' \<and> map_of infoKeysAliasDict ''name'' = None \<and>
   g_info (setInfo env0 glos0 ''NAME'' ''x'') = [(''NAME'', ''x'')] \<and>
   getInfo (setInfo env0 glos0 ''NAME'' ''x'') ''name'' = []"
proof -
  have l: "lower ''NAME'' = ''name''" by code_simp
  have m: "map_of infoKeysAliasDict ''name'' = None" by (simp add: infoKeysAliasDict_def)
  have i: "g_info (setInfo env0 glos0 ''NAME'' ''x'') = [(''NAME'', ''x'')]"
    by (simp add: g_info_setInfo aliasKey_examples env0_def glos0_simp)
  have g: "getInfo (setInfo env0 glos0 ''NAME'' ''x'') ''name'' = []"
    by (simp add: getInfo_def i aliasKey_examples)
  from l m i g show ?thesis by simp
qed

section \<open>The filter chain\<close>

lemma fold_bind_None: "fold (\<lambda>f r. Option.bind r f) fs None = None"
  by (induction fs) auto

lemma fst_runEntryFilters: "fst (runEntryFilters fs e) = chain_spec fs e"
  unfolding chain_spec_def
proof (induction fs arbitrary: e)
  case Nil
  show ?case by simp
next
  case (Cons f fs)
  show ?case
  proof (cases "f e")
    case None
    then show ?thesis by (simp add: fold_bind_None)
  next
    case (Some e')
    then show ?thesis using Cons[of e'] by (cases "runEntryFilters fs e'") auto
  qed
qed

lemma runEntryFilters_chainStep: "chainStep fs e (runEntryFilters fs e)"
proof (induction fs arbitrary: e)
  case Nil
  show ?case by (simp add: chainStep_def)
next
  case (Cons f fs)
  show ?case
  proof (cases "f e")
    case None
    then show ?thesis by (simp add: chainStep_def)
  next
    case (Some e')
    obtain r calls where rc: "runEntryFilters fs e' = (r, calls)"
      by (cases "runEntryFilters fs e'")
    have "chainStep fs e' (r, calls)" using Cons[of e'] rc by simp
    then have ih: "length calls \<le> length fs \<and>
        (fs \<noteq> [] \<longrightarrow> calls \<noteq> [] \<and> hd calls = e') \<and>
        (\<forall>j. Suc j < length calls \<longrightarrow> (fs ! j) (calls ! j) = Some (calls ! Suc j)) \<and>
        r = (if calls = [] then Some e' else (fs ! (length calls - 1)) (last calls)) \<and>
        (r \<noteq> None \<longrightarrow> length calls = length fs)"
      unfolding chainStep_def prod.case .
    have len: "length calls \<le> length fs" using ih by blast
    have hd: "fs \<noteq> [] \<longrightarrow> calls \<noteq> [] \<and> hd calls = e'" using ih by blast
    have st: "\<And>j. Suc j < length calls \<Longrightarrow> (fs ! j) (calls ! j) = Some (calls ! Suc j)"
      using ih by blast
    have r: "r = (if calls = [] then Some e' else (fs ! (length calls - 1)) (last calls))"
      using ih by blast
    have full: "r \<noteq> None \<longrightarrow> length calls = length fs" using ih by blast
    have run: "runEntryFilters (f # fs) e = (r, e # calls)" using Some rc by simp
    have c1: "length (e # calls) \<le> length (f # fs)" using len by simp
    have c2: "(f # fs) \<noteq> [] \<longrightarrow> e # calls \<noteq> [] \<and> hd (e # calls) = e" by simp
    have c3: "((f # fs) ! j) ((e # calls) ! j) = Some ((e # calls) ! Suc j)"
      if j: "Suc j < length (e # calls)" for j
    proof (cases j)
      case 0
      have "calls \<noteq> []" using j 0 by auto
      then have "fs \<noteq> []" using len by auto
      with hd have "calls ! 0 = e'" by (cases calls) auto
      with 0 Some show ?thesis by simp
    next
      case (Suc k)
      with j have "Suc k < length calls" by simp
      from st[OF this] Suc show ?thesis by simp
    qed
    have c4: "r = (if e # calls = [] then Some e
                   else ((f # fs) ! (length (e # calls) - 1)) (last (e # calls)))"
    proof (cases calls)
      case Nil
      with r Some show ?thesis by simp
    next
      case (Cons c cs)
      with r show ?thesis by simp
    qed
    have c5: "r \<noteq> None \<longrightarrow> length (e # calls) = length (f # fs)" using full by simp
    show ?thesis
      unfolding run chainStep_def prod.case using c1 c2 c3 c4 c5 by blast
  qed
qed

lemma length_trace: "length (applyEntryFiltersGen_trace fs gen) = length gen"
  by (induction fs gen rule: applyEntryFiltersGen_trace.induct) auto

lemma nth_trace:
  "i < length gen \<Longrightarrow>
   applyEntryFiltersGen_trace fs gen ! i =
     (case gen ! i of None \<Rightarrow> (None, []) | Some e \<Rightarrow> runEntryFilters fs e)"
proof (induction fs gen arbitrary: i rule: applyEntryFiltersGen_trace.induct)
  case (1 fs)
  then show ?case by simp
next
  case (2 fs gen)
  then show ?case by (cases i) auto
next
  case (3 fs entry gen)
  then show ?case by (cases i) auto
qed

lemma applyEntryFiltersGen_chain:
  "applyEntryFiltersGen fs gen = List.map_filter (\<lambda>x. Option.bind x (chain_spec fs)) gen"
  unfolding applyEntryFiltersGen_def
  by (induction fs gen rule: applyEntryFiltersGen_trace.induct)
     (auto simp: List.map_filter_simps fst_runEntryFilters[symmetric] split: option.splits)

text \<open>
  C8. \<^verbatim>\<open>_applyEntryFiltersGen\<close> is a chain of responsibility. It takes one step per
  upstream element, in order. A falsy element runs no stage and yields nothing. An
  entry runs the stages in order, each on what the stage before returned, up to the
  first stage that returns a falsy value: then no later stage runs and nothing is
  yielded; an entry that passes every stage is yielded as the last stage returned it.
  So the entries yielded are the upstream entries that survive the chain, once each and
  in the upstream order.
\<close>

theorem applyEntryFiltersGen_chain_of_responsibility:
  "length (applyEntryFiltersGen_trace fs gen) = length gen \<and>
   (\<forall>i < length gen.
      case gen ! i of
        None \<Rightarrow> applyEntryFiltersGen_trace fs gen ! i = (None, [])
      | Some e \<Rightarrow> applyEntryFiltersGen_trace fs gen ! i = runEntryFilters fs e \<and>
                  chainStep fs e (runEntryFilters fs e)) \<and>
   applyEntryFiltersGen fs gen = List.map_filter (\<lambda>x. Option.bind x (chain_spec fs)) gen"
proof (intro conjI allI impI)
  show "length (applyEntryFiltersGen_trace fs gen) = length gen" by (rule length_trace)
next
  fix i assume "i < length gen"
  then show "case gen ! i of
        None \<Rightarrow> applyEntryFiltersGen_trace fs gen ! i = (None, [])
      | Some e \<Rightarrow> applyEntryFiltersGen_trace fs gen ! i = runEntryFilters fs e \<and>
                  chainStep fs e (runEntryFilters fs e)"
    by (simp add: nth_trace runEntryFilters_chainStep split: option.splits)
next
  show "applyEntryFiltersGen fs gen = List.map_filter (\<lambda>x. Option.bind x (chain_spec fs)) gen"
    by (rule applyEntryFiltersGen_chain)
qed

theorem applyEntryFiltersGen_chain_of_responsibility_witness:
  "applyEntryFiltersGen_trace
     [\<lambda>n::nat. if n = 0 then None else Some (n + 1), \<lambda>n. if n = 3 then None else Some (n * 10)]
     [Some 1, None, Some 0, Some 2, Some 5]
     = [(Some 20, [1, 2]), (None, []), (None, [0]), (None, [2, 3]), (Some 60, [5, 6])] \<and>
   chainStep
     [\<lambda>n::nat. if n = 0 then None else Some (n + 1), \<lambda>n. if n = 3 then None else Some (n * 10)]
     2 (None, [2, 3]) \<and>
   applyEntryFiltersGen
     [\<lambda>n::nat. if n = 0 then None else Some (n + 1), \<lambda>n. if n = 3 then None else Some (n * 10)]
     [Some 1, None, Some 0, Some 2, Some 5]
     = [20, 60]"
proof -
  let ?fs = "[\<lambda>n::nat. if n = 0 then None else Some (n + 1), \<lambda>n. if n = 3 then None else Some (n * 10)]"
  let ?gen = "[Some 1, None, Some 0, Some 2, Some (5::nat)]"
  note t = applyEntryFiltersGen_chain_of_responsibility[of ?fs ?gen]
  have tr: "applyEntryFiltersGen_trace ?fs ?gen
     = [(Some 20, [1, 2]), (None, []), (None, [0]), (None, [2, 3]), (Some 60, [5, 6])]"
    by simp
  from t have "\<forall>i < length ?gen.
      case ?gen ! i of
        None \<Rightarrow> applyEntryFiltersGen_trace ?fs ?gen ! i = (None, [])
      | Some e \<Rightarrow> applyEntryFiltersGen_trace ?fs ?gen ! i = runEntryFilters ?fs e \<and>
                  chainStep ?fs e (runEntryFilters ?fs e)"
    by blast
  then have "case ?gen ! 3 of
        None \<Rightarrow> applyEntryFiltersGen_trace ?fs ?gen ! 3 = (None, [])
      | Some e \<Rightarrow> applyEntryFiltersGen_trace ?fs ?gen ! 3 = runEntryFilters ?fs e \<and>
                  chainStep ?fs e (runEntryFilters ?fs e)"
    by (drule_tac x = 3 in spec) simp
  then have cs: "chainStep ?fs 2 (None, [2, 3])" by simp
  from t have "applyEntryFiltersGen ?fs ?gen = List.map_filter (\<lambda>x. Option.bind x (chain_spec ?fs)) ?gen"
    by blast
  then have out: "applyEntryFiltersGen ?fs ?gen = [20, 60]"
    by (simp add: List.map_filter_simps chain_spec_def)
  from tr cs out show ?thesis by blast
qed

section \<open>Iterating a blank glossary\<close>

lemma g_iter_setInfo: "g_iter (setInfo env g key v) = g_iter g"
  by (simp add: setInfo_def Let_def logmsg_def addlog_def)

lemma g_iter_fold_setInfo:
  "g_iter (fold (\<lambda>(key, value) g. setInfo env g key value) info g) = g_iter g"
  by (induction info arbitrary: g) (auto simp: g_iter_setInfo)

text \<open>
  C10. On a glossary whose iterator is unset, \<^verbatim>\<open>__iter__\<close> does not raise: it logs one
  error and returns the empty iterator, which yields nothing. The iterator is unset
  after construction and after \<^verbatim>\<open>clear\<close>.
\<close>

theorem iter_blank_glossary:
  "(g_iter g = None \<longrightarrow>
      glos_iter g =
        (Return None,
         logmsg ERROR ''Trying to iterate over a blank Glossary, must call glos.read first'' g)) \<and>
   drain env g' None = [] \<and>
   g_iter (clear g) = None \<and>
   g_iter (Glossary_init env info ui) = None"
  by (simp add: glos_iter_def drain_def clear_def Glossary_init_def g_iter_fold_setInfo)

theorem iter_blank_glossary_witness:
  "glos_iter glos0 =
     (Return None,
      glos0\<lparr>g_log :=
        [(ERROR, ''Trying to iterate over a blank Glossary, must call glos.read first'')]\<rparr>) \<and>
   drain env0 (snd (glos_iter glos0)) None = []"
  using iter_blank_glossary[of glos0 env0 "snd (glos_iter glos0)" "[]" None]
  by (simp add: glos0_simp logmsg_def addlog_def drain_def)

end
